theory Spec2Isabelle
  imports Complex_Main
begin

section \<open>Escrow settlement handlers of the P2P escrow bot\<close>

text \<open>
  The theory embeds the callback branches of \<^verbatim>\<open>src/handlers/callbackHandler.js\<close>
  that move funds or change the deposit ledger: \<^verbatim>\<open>check_deposit\<close>,
  \<^verbatim>\<open>tron_verify_received_confirm_\<close>, \<^verbatim>\<open>admin_release_confirm_yes_\<close>,
  \<^verbatim>\<open>release_confirm_yes_\<close>, \<^verbatim>\<open>refund_confirm_yes_\<close> and
  \<^verbatim>\<open>fiat_release_confirm_\<close>.

  Conventions of the embedding.
  \<^item> A JavaScript number is an exact rational (\<^typ>\<open>rat\<close>): the branches compare and
    subtract amounts, and the model keeps every comparison and every operation in the
    order of the source, without the rounding of IEEE doubles. Where the source rounds a
    double (\<^verbatim>\<open>Math.floor\<close> of a product, \<^verbatim>\<open>toFixed\<close>, a comparison at a tolerance), the
    model rounds the exact value, and the last digits of such a figure can differ from
    the ones the doubles give.
  \<^item> A field that the code tests for truthiness keeps its falsy value in the model:
    the empty string for a missing string, \<open>None\<close> for \<^verbatim>\<open>null\<close>, \<open>0\<close> for a number.
  \<^item> The persisted document is the record \<open>escrow\<close>; a handler takes the stored
    document and returns the document as last saved.
  \<^item> The blockchain service is a parameter of each handler; the calls made to
    \<^verbatim>\<open>releaseFunds\<close> and \<^verbatim>\<open>refundFunds\<close> are returned as a list, in order.
  \<^item> Messages sent to the chat are not modelled, except that the reply which ends a
    branch is the \<open>outcome\<close> of the handler. Time stamps (\<^verbatim>\<open>completedAt\<close>) are left out.
  \<^item> \<^verbatim>\<open>feeRate\<close> and \<^verbatim>\<open>networkFee\<close> are numbers on every document. On a number the
    source's \<^verbatim>\<open>networkFee || 0\<close> is the number itself, and its
    \<^verbatim>\<open>typeof feeRate === "number" ? feeRate : 0.75\<close> is \<^verbatim>\<open>feeRate\<close>.
  \<^item> A handler reloads the document right after saving it (\<^verbatim>\<open>Escrow.findById\<close>); the
    model takes the reloaded document to be the saved one.
\<close>

subsection \<open>Data model\<close>

datatype status =
    draft | awaiting_details | awaiting_deposit | deposited | in_fiat_transfer
  | ready_to_release | disputed | completed | refunded | cancelled

record escrow =
  status :: status
  buyerId :: int
  sellerId :: int
  buyerAddress :: string
  sellerAddress :: string
  depositAddress :: string
  quantity :: rat
  feeRate :: rat
  networkFee :: rat
  depositAmount :: rat
  confirmedAmount :: rat
  accumulatedDepositAmount :: rat
  accumulatedDepositAmountWei :: "int option"
  transactionHash :: string
  partialTransactionHashes :: "string list"
  depositTransactionFromAddress :: string
  lastCheckedBlock :: nat
  buyerConfirmedRelease :: bool
  sellerConfirmedRelease :: bool
  adminConfirmedRelease :: bool
  buyerConfirmedRefund :: bool
  sellerConfirmedRefund :: bool
  pendingReleaseAmount :: "rat option"
  pendingRefundAmount :: "rat option"
  releaseConfirmationMessageId :: "nat option"
  refundConfirmationMessageId :: "nat option"
  releaseTransactionHash :: string
  refundTransactionHash :: string
  partialReleaseTransactionHashes :: "string list"
  buyerClosedTrade :: bool
  sellerClosedTrade :: bool
  tronPendingTxHash :: string
  tronPendingAmount :: rat
  tronManualVerificationPending :: bool

text \<open>One transfer record of the deposit-detection service.\<close>

record transfer =
  tx_from :: string
  tx_to :: string
  tx_hash :: string
  valueDecimal :: rat

text \<open>The button press: who pressed, whether the configuration lists them as an
  admin, and the id of the message that carries the button.\<close>

record click =
  userId :: int
  isAdmin :: bool
  callbackMessageId :: "nat option"

text \<open>What \<^verbatim>\<open>releaseFunds\<close> or \<^verbatim>\<open>refundFunds\<close> does: throw, resolve to nothing, or
  resolve to an object with \<^verbatim>\<open>success\<close> and \<^verbatim>\<open>transactionHash\<close> (empty when absent).\<close>

datatype transfer_result = Throws | NoResult | Result bool string

text \<open>A call to the transfer collaborator: the amount and the minor-unit override.\<close>

type_synonym transfer_call = "rat \<times> int option"

type_synonym blockchain = "transfer_call \<Rightarrow> transfer_result"

datatype outcome =
    NoActiveEscrow
  | ExpiredRequest
  | AlreadySettled
  | AccessDenied
  | ApprovalRecorded
  | MissingAddressOrZeroAmount
  | ExceedsBalance
  | NonPositiveAmount
  | NetAmountTooSmall
  | InvalidAmount
  | TransferFailed
  | NoNewDeposit
  | DepositConfirmed
  | ErrorOccurred
  | NoReply
  | Settled

subsection \<open>JavaScript helpers\<close>

text \<open>\<^verbatim>\<open>toLowerCase\<close> on the characters of hashes and addresses: the letters \<open>A\<close> to \<open>Z\<close>
  go to \<open>a\<close> to \<open>z\<close>, every other character stays.\<close>

definition toLowerCase_char :: "char \<Rightarrow> char" where
  "toLowerCase_char c =
     (case map_of (zip ''ABCDEFGHIJKLMNOPQRSTUVWXYZ'' ''abcdefghijklmnopqrstuvwxyz'') c of
        Some l \<Rightarrow> l
      | None \<Rightarrow> c)"

definition toLowerCase :: "string \<Rightarrow> string" where
  "toLowerCase s = map toLowerCase_char s"

text \<open>Truthiness of a message id: \<^verbatim>\<open>null\<close>, \<^verbatim>\<open>undefined\<close> and \<^verbatim>\<open>0\<close> are falsy.\<close>

fun truthy_id :: "nat option \<Rightarrow> bool" where
  "truthy_id None = False"
| "truthy_id (Some n) = (n \<noteq> 0)"

text \<open>\<^verbatim>\<open>!stored || (callbackMessageId && stored !== callbackMessageId)\<close>: the guard against
  a stale confirmation prompt.\<close>

definition stale_prompt :: "nat option \<Rightarrow> nat option \<Rightarrow> bool" where
  "stale_prompt stored cb =
     (if truthy_id stored then (truthy_id cb \<and> stored \<noteq> cb) else True)"

definition EPSILON :: rat where
  "EPSILON = 1 / 100000"

definition eligible :: "status \<Rightarrow> bool" where
  "eligible s = (s = deposited \<or> s = in_fiat_transfer \<or> s = ready_to_release \<or> s = disputed)"

definition terminal :: "status \<Rightarrow> bool" where
  "terminal s = (s = completed \<or> s = refunded)"

subsection \<open>Deposit detection: \<^verbatim>\<open>check_deposit\<close> (lines 1390-1520)\<close>

text \<open>The filter of lines 1425-1451: a transfer counts when it goes to the vault and
  its hash is missing or differs, ignoring case, from the primary hash and from every
  partial hash of the document.\<close>

definition isNewDeposit :: "escrow \<Rightarrow> transfer \<Rightarrow> bool" where
  "isNewDeposit e tx =
     (if toLowerCase (tx_to tx) \<noteq> toLowerCase (depositAddress e) then False
      else if tx_hash tx = [] then True
      else if transactionHash e \<noteq> [] \<and>
              toLowerCase (transactionHash e) = toLowerCase (tx_hash tx) then False
      else if list_ex (\<lambda>h. toLowerCase h = toLowerCase (tx_hash tx))
                (partialTransactionHashes e) then False
      else True)"

definition newDeposits :: "escrow \<Rightarrow> transfer list \<Rightarrow> transfer list" where
  "newDeposits e txs = filter (isNewDeposit e) txs"

definition newAmount :: "escrow \<Rightarrow> transfer list \<Rightarrow> rat" where
  "newAmount e txs = foldl (\<lambda>acc tx. acc + valueDecimal tx) 0 (newDeposits e txs)"

text \<open>A hash is recorded on the document when it equals, ignoring case, the primary
  hash or one of the partial hashes: the two tests of the filter above.\<close>

definition hashRecorded :: "escrow \<Rightarrow> string \<Rightarrow> bool" where
  "hashRecorded e h =
     ((transactionHash e \<noteq> [] \<and> toLowerCase (transactionHash e) = toLowerCase h)
      \<or> list_ex (\<lambda>x. toLowerCase x = toLowerCase h) (partialTransactionHashes e))"

text \<open>The test of the recording loop below is exact: \<^verbatim>\<open>includes(hash)\<close> and \<^verbatim>\<open>===\<close>.\<close>

definition hashStored :: "escrow \<Rightarrow> string \<Rightarrow> bool" where
  "hashStored e h =
     ((transactionHash e = h \<and> h \<noteq> []) \<or> h \<in> set (partialTransactionHashes e))"

text \<open>The loop of lines 1468-1485 over the new deposits: the first hash becomes the
  primary hash, later ones are appended to the partial list unless already there.\<close>

fun recordHashes :: "escrow \<Rightarrow> transfer list \<Rightarrow> escrow" where
  "recordHashes e [] = e"
| "recordHashes e (tx # txs) =
     (if tx_hash tx = [] then recordHashes e txs
      else if transactionHash e = [] then
        recordHashes (e\<lparr>transactionHash := tx_hash tx,
                         depositTransactionFromAddress := tx_from tx\<rparr>) txs
      else if tx_hash tx \<notin> set (partialTransactionHashes e) \<and> transactionHash e \<noteq> tx_hash tx then
        recordHashes (e\<lparr>partialTransactionHashes := partialTransactionHashes e @ [tx_hash tx]\<rparr>) txs
      else recordHashes e txs)"

text \<open>The branch. \<open>rpcTxs\<close> is the answer of \<^verbatim>\<open>getTokenTransfersViaRPC\<close>, \<open>apiTxs\<close> the answer
  of the fallback \<^verbatim>\<open>getTokenTransactions\<close>, \<open>latest\<close> the latest block number
  (\<open>None\<close> when the call throws).\<close>

definition check_deposit ::
  "transfer list \<Rightarrow> transfer list \<Rightarrow> nat option \<Rightarrow> escrow \<Rightarrow> outcome \<times> escrow" where
  "check_deposit rpcTxs apiTxs latest e =
     (if status e \<noteq> awaiting_deposit \<and> status e \<noteq> deposited then (NoActiveEscrow, e)
      else if depositAddress e = [] then (NoActiveEscrow, e)
      else
        let txs = (if rpcTxs = [] then apiTxs else rpcTxs);
            new = newDeposits e txs;
            amount = newAmount e txs;
            previousAmount = depositAmount e;
            totalAmount = previousAmount + amount
        in if amount > 0 then
             let e1 = (case latest of
                         None \<Rightarrow> e
                       | Some b \<Rightarrow> if b \<noteq> 0 then e\<lparr>lastCheckedBlock := b\<rparr> else e);
                 e2 = recordHashes e1 new
             in (DepositConfirmed,
                 e2\<lparr>depositAmount := totalAmount, confirmedAmount := totalAmount,
                     status := deposited\<rparr>)
           else (NoNewDeposit, e))"

subsection \<open>Manual deposit verification: \<^verbatim>\<open>tron_verify_received_confirm_\<close> (lines 4581-4631)\<close>

definition tron_verify_received_confirm :: "click \<Rightarrow> escrow \<Rightarrow> outcome \<times> escrow" where
  "tron_verify_received_confirm c e =
     (if \<not> isAdmin c then (AccessDenied, e)
      else
        let txHash = tronPendingTxHash e;
            amount = tronPendingAmount e;
            expectedAmount = quantity e;
            tolerance = (1 / 100 :: rat);
            newAccumulated = accumulatedDepositAmount e + amount;
            e1 = e\<lparr>tronManualVerificationPending := False,
                    accumulatedDepositAmount := newAccumulated\<rparr>;
            e2 = (if transactionHash e1 = [] then e1\<lparr>transactionHash := txHash\<rparr>
                  else e1\<lparr>partialTransactionHashes := partialTransactionHashes e1 @ [txHash]\<rparr>);
            e3 = e2\<lparr>depositAmount := newAccumulated\<rparr>;
            e4 = (if newAccumulated \<ge> expectedAmount - tolerance then
                    let e' = e3\<lparr>confirmedAmount := newAccumulated\<rparr>
                    in if status e' = draft \<or> status e' = awaiting_details \<or> status e' = awaiting_deposit
                       then e'\<lparr>status := deposited\<rparr> else e'
                  else e3)
        in (DepositConfirmed, e4))"

subsection \<open>Amounts of a settlement\<close>

text \<open>\<^verbatim>\<open>Number(a || b || c || 0)\<close>: the first operand that is not zero.\<close>

definition firstTruthy3 :: "rat \<Rightarrow> rat \<Rightarrow> rat \<Rightarrow> rat" where
  "firstTruthy3 a b c = (if a \<noteq> 0 then a else if b \<noteq> 0 then b else if c \<noteq> 0 then c else 0)"

text \<open>\<^verbatim>\<open>wei && wei !== "0" ? wei : null\<close>: the minor-unit mirror when it is present and
  not zero.\<close>

definition totalDepositedWei :: "escrow \<Rightarrow> int option" where
  "totalDepositedWei e =
     (case accumulatedDepositAmountWei e of
        None \<Rightarrow> None
      | Some w \<Rightarrow> if w \<noteq> 0 then Some w else None)"

definition totalDeposited :: "escrow \<Rightarrow> rat" where
  "totalDeposited e =
     firstTruthy3 (accumulatedDepositAmount e) (depositAmount e) (confirmedAmount e)"

text \<open>\<^verbatim>\<open>Number(ethers.formatUnits(BigInt(w), decimals))\<close>.\<close>

definition formatUnits :: "int \<Rightarrow> nat \<Rightarrow> rat" where
  "formatUnits w decimals = of_int w / 10 ^ decimals"

definition formattedTotalDeposited :: "nat \<Rightarrow> escrow \<Rightarrow> rat" where
  "formattedTotalDeposited decimals e =
     (case totalDepositedWei e of
        Some w \<Rightarrow> formatUnits w decimals
      | None \<Rightarrow> totalDeposited e)"

text \<open>\<^verbatim>\<open>x.toFixed(decimals)\<close> read back as a count of minor units: the nearest multiple
  of \<open>10\<^sup>-\<^sup>d\<close>, ties away from zero.\<close>

definition toFixedUnits :: "rat \<Rightarrow> nat \<Rightarrow> int" where
  "toFixedUnits x decimals =
     (if x \<ge> 0 then \<lfloor>x * 10 ^ decimals + 1 / 2\<rfloor> else - \<lfloor>- x * 10 ^ decimals + 1 / 2\<rfloor>)"

text \<open>\<^verbatim>\<open>ethers.parseUnits(x.toFixed(decimals), decimals)\<close>. From \<open>10\<^sup>2\<^sup>1\<close> on, \<^verbatim>\<open>toFixed\<close>
  answers in exponent notation, which \<^verbatim>\<open>parseUnits\<close> rejects by throwing: \<open>None\<close>.\<close>

definition parseUnitsFixed :: "rat \<Rightarrow> nat \<Rightarrow> int option" where
  "parseUnitsFixed x decimals =
     (if \<bar>x\<bar> \<ge> 10 ^ 21 then None else Some (toFixedUnits x decimals))"

text \<open>\<^verbatim>\<open>parseFloat(x.toFixed(decimals))\<close>.\<close>

definition toFixedNumber :: "rat \<Rightarrow> nat \<Rightarrow> rat" where
  "toFixedNumber x decimals =
     (if \<bar>x\<bar> \<ge> 10 ^ 21 then x else of_int (toFixedUnits x decimals) / 10 ^ decimals)"

text \<open>Division of two \<^verbatim>\<open>BigInt\<close>s: truncation towards zero, a \<^verbatim>\<open>RangeError\<close> on a zero
  divisor.\<close>

definition bigint_div :: "int \<Rightarrow> int \<Rightarrow> int option" where
  "bigint_div a b =
     (if b = 0 then None else Some (sgn a * sgn b * (\<bar>a\<bar> div \<bar>b\<bar>)))"

text \<open>The minor-unit amount of a settlement (lines 2049-2083, and again 2584-2618): the
  whole mirror for a full settlement, else the share of the mirror in proportion to the
  requested amount, else the requested amount in minor units; \<open>None\<close> is \<^verbatim>\<open>null\<close>.\<close>

definition proportionalWei :: "int \<Rightarrow> rat \<Rightarrow> rat \<Rightarrow> nat \<Rightarrow> int option" where
  "proportionalWei w amount whole decimals =
     (case parseUnitsFixed amount decimals of
        None \<Rightarrow> None
      | Some amountWei \<Rightarrow>
          (case parseUnitsFixed whole decimals of
             None \<Rightarrow> None
           | Some totalWei \<Rightarrow> bigint_div (w * amountWei) totalWei))"

definition amountWeiOverride :: "int option \<Rightarrow> rat \<Rightarrow> rat \<Rightarrow> nat \<Rightarrow> int option" where
  "amountWeiOverride tdw amount whole decimals =
     (let isFull = (\<bar>amount - whole\<bar> < EPSILON)
      in case tdw of
           Some w \<Rightarrow>
             if isFull then Some w
             else if whole > 0 then
               (case proportionalWei w amount whole decimals of
                  Some p \<Rightarrow> Some p
                | None \<Rightarrow> parseUnitsFixed amount decimals)
             else parseUnitsFixed amount decimals
         | None \<Rightarrow> parseUnitsFixed amount decimals)"

text \<open>The remainder of the mirror after a partial settlement (lines 2134-2139 and
  2691-2699): written only when both the mirror and the override are present, and never
  below zero.\<close>

definition remainingWei :: "int option \<Rightarrow> int option \<Rightarrow> int option \<Rightarrow> int option" where
  "remainingWei old tdw override =
     (case (tdw, override) of
        (Some w, Some a) \<Rightarrow> if w - a < 0 then Some 0 else Some (w - a)
      | _ \<Rightarrow> old)"

text \<open>The ledger after a settlement that empties it.\<close>

definition zeroLedger :: "escrow \<Rightarrow> escrow" where
  "zeroLedger e =
     e\<lparr>accumulatedDepositAmount := 0, depositAmount := 0, confirmedAmount := 0,
       accumulatedDepositAmountWei := Some 0\<rparr>"

definition setRemaining :: "rat \<Rightarrow> escrow \<Rightarrow> escrow" where
  "setRemaining r e =
     e\<lparr>accumulatedDepositAmount := r, depositAmount := r, confirmedAmount := r\<rparr>"

text \<open>\<^verbatim>\<open>if (!quantity || quantity <= 0) quantity = amount\<close>.\<close>

definition defaultQuantity :: "rat \<Rightarrow> escrow \<Rightarrow> escrow" where
  "defaultQuantity amount e = (if quantity e = 0 \<or> quantity e \<le> 0 then e\<lparr>quantity := amount\<rparr> else e)"

subsection \<open>Admin release: \<^verbatim>\<open>admin_release_confirm_yes_\<close> (lines 1886-2347)\<close>

text \<open>Lines 1966-2002. With a pending partial amount the release amount is that amount.
  Without one, the branch takes the payout after both fees, cut to two decimals, and
  divides it by \<open>1 - feeRate / 100\<close>; the result is capped at the deposited total.\<close>

definition adminReleaseAmount :: "escrow \<Rightarrow> rat" where
  "adminReleaseAmount e =
     (case pendingReleaseAmount e of
        Some p \<Rightarrow> p
      | None \<Rightarrow>
          let feeRateDecimal = feeRate e / 100;
              grossFee = totalDeposited e * feeRateDecimal;
              totalDeductions = networkFee e + grossFee;
              targetPayout = of_int \<lfloor>(totalDeposited e - totalDeductions) * 100\<rfloor> / 100;
              releaseAmount =
                (if targetPayout \<le> 0 then totalDeposited e - networkFee e
                 else if feeRateDecimal \<ge> 1 then totalDeposited e - networkFee e
                 else targetPayout / (1 - feeRateDecimal))
          in if releaseAmount > totalDeposited e then totalDeposited e else releaseAmount)"

text \<open>Lines 2119-2154: the ledger after the second transfer has returned the hash \<open>h\<close>.\<close>

definition adminSettle :: "nat \<Rightarrow> rat \<Rightarrow> int option \<Rightarrow> string \<Rightarrow> escrow \<Rightarrow> escrow" where
  "adminSettle decimals releaseAmount override h u =
     (let ftd = formattedTotalDeposited decimals u;
          tdw = totalDepositedWei u;
          u1 = u\<lparr>releaseTransactionHash := h,
                 partialReleaseTransactionHashes := partialReleaseTransactionHashes u @ [h]\<rparr>;
          isPartialRelease = (\<bar>releaseAmount - ftd\<bar> \<ge> EPSILON);
          remainingAmount = ftd - releaseAmount;
          isActuallyFullRelease = (remainingAmount < EPSILON);
          u2 = (if isPartialRelease \<and> \<not> isActuallyFullRelease then
                  (setRemaining remainingAmount u1)
                    \<lparr>accumulatedDepositAmountWei :=
                       remainingWei (accumulatedDepositAmountWei u1) tdw override\<rparr>
                else zeroLedger ((defaultQuantity releaseAmount u1)\<lparr>status := completed\<rparr>))
      in u2\<lparr>pendingReleaseAmount := None, adminConfirmedRelease := False\<rparr>)"

text \<open>The branch. \<^verbatim>\<open>releaseFunds\<close> is called at line 2019 with the net amount, outside any
  \<^verbatim>\<open>try\<close>, and its result is not read; the checks of the release amount against the
  balance follow at lines 2029-2043; \<^verbatim>\<open>releaseFunds\<close> is called again at line 2099 with
  the release amount less the network fee. An \<^verbatim>\<open>Error\<close> thrown outside the inner
  \<^verbatim>\<open>try\<close> reaches the handler's outer \<^verbatim>\<open>catch\<close>, which answers "An error occurred":
  so it is for a net amount that is not positive (the \<^verbatim>\<open>throw\<close> of line 2013) and for a
  first call that throws.\<close>

definition admin_release_confirm_yes ::
  "blockchain \<Rightarrow> nat \<Rightarrow> click \<Rightarrow> escrow \<Rightarrow> outcome \<times> escrow \<times> transfer_call list" where
  "admin_release_confirm_yes releaseFunds decimals c e =
     (if \<not> eligible (status e) then (NoActiveEscrow, e, [])
      else if stale_prompt (releaseConfirmationMessageId e) (callbackMessageId c)
        then (ExpiredRequest, e, [])
      else if terminal (status e) then (AlreadySettled, e, [])
      else if \<not> isAdmin c then (AccessDenied, e, [])
      else
        let u = e\<lparr>adminConfirmedRelease := True\<rparr>;
            tdw = totalDepositedWei u;
            ftd = formattedTotalDeposited decimals u
        in if buyerAddress u = [] \<or> totalDeposited u \<le> 0 then (MissingAddressOrZeroAmount, u, [])
           else
             let releaseAmount = adminReleaseAmount u;
                 serviceFee = releaseAmount * feeRate u / 100;
                 netAmount = releaseAmount - serviceFee - networkFee u
             in if netAmount \<le> 0 then (ErrorOccurred, u, [])
                else
                  let call1 = (netAmount, None)
                  in if releaseFunds call1 = Throws then (ErrorOccurred, u, [call1])
                     else
                         if releaseAmount > ftd then (ExceedsBalance, u, [call1])
                         else if releaseAmount \<le> 0 then (NonPositiveAmount, u, [call1])
                         else
                           let override = amountWeiOverride tdw releaseAmount ftd decimals;
                               amountToRelease = releaseAmount - networkFee u
                           in if amountToRelease \<le> 0 then (TransferFailed, u, [call1])
                              else
                                let call2 = (amountToRelease, override)
                                in (case releaseFunds call2 of
                                      Result ok h \<Rightarrow>
                                        if \<not> ok then (TransferFailed, u, [call1, call2])
                                        else if h = [] then (TransferFailed, u, [call1, call2])
                                        else (Settled,
                                              adminSettle decimals releaseAmount override h u,
                                              [call1, call2])
                                    | Throws \<Rightarrow> (TransferFailed, u, [call1, call2])
                                    | NoResult \<Rightarrow> (TransferFailed, u, [call1, call2])))"

subsection \<open>Release by consent: \<^verbatim>\<open>release_confirm_yes_\<close> (lines 2348-2989)\<close>

text \<open>Lines 2400-2409: the press is recorded on the flag of the presser's role.\<close>

definition recordReleaseApproval :: "click \<Rightarrow> escrow \<Rightarrow> escrow" where
  "recordReleaseApproval c e =
     (let isBuyer = (buyerId e = userId c);
          isSeller = (sellerId e = userId c);
          e1 = (if isBuyer then e\<lparr>buyerConfirmedRelease := True\<rparr> else e);
          e2 = (if isSeller then e1\<lparr>sellerConfirmedRelease := True\<rparr> else e1)
      in if isAdmin c \<and> \<not> isBuyer \<and> \<not> isSeller then e2\<lparr>adminConfirmedRelease := True\<rparr> else e2)"

text \<open>Lines 2424-2428.\<close>

definition canExecute :: "escrow \<Rightarrow> bool" where
  "canExecute u =
     (adminConfirmedRelease u \<or> (buyerConfirmedRelease u \<and> sellerConfirmedRelease u))"

text \<open>Lines 2559-2563: the pending partial amount when one is set, else the whole
  deposited total.\<close>

definition requestedRelease :: "nat \<Rightarrow> escrow \<Rightarrow> rat" where
  "requestedRelease decimals u =
     (case pendingReleaseAmount u of
        Some p \<Rightarrow> p
      | None \<Rightarrow> formattedTotalDeposited decimals u)"

text \<open>Lines 2620-2626: the amount handed to \<^verbatim>\<open>releaseFunds\<close>.\<close>

definition actualAmountToUser :: "escrow \<Rightarrow> rat \<Rightarrow> rat" where
  "actualAmountToUser u grossReleaseAmount =
     (let serviceFee = grossReleaseAmount * feeRate u / 100
      in grossReleaseAmount - serviceFee - networkFee u)"

text \<open>Lines 2656-2716: the ledger after the transfer has returned the hash \<open>h\<close>.\<close>

definition completeRelease :: "rat \<Rightarrow> escrow \<Rightarrow> escrow" where
  "completeRelease amount u =
     zeroLedger ((defaultQuantity amount u)
       \<lparr>status := completed, buyerClosedTrade := False, sellerClosedTrade := False\<rparr>)"

definition releaseSettle :: "nat \<Rightarrow> rat \<Rightarrow> int option \<Rightarrow> string \<Rightarrow> escrow \<Rightarrow> escrow" where
  "releaseSettle decimals grossReleaseAmount override h u =
     (let ftd = formattedTotalDeposited decimals u;
          tdw = totalDepositedWei u;
          toUser = actualAmountToUser u grossReleaseAmount;
          u1 = u\<lparr>releaseTransactionHash := h,
                 partialReleaseTransactionHashes := partialReleaseTransactionHashes u @ [h]\<rparr>;
          maxAmountToContract = ftd - networkFee u;
          maxServiceFee = maxAmountToContract * feeRate u / 100;
          maxReceivable = maxAmountToContract - maxServiceFee;
          isPartialRelease = (\<bar>toUser - maxReceivable\<bar> > EPSILON);
          u2 = (if isPartialRelease then
                  let remainingAmount = ftd - grossReleaseAmount
                  in if remainingAmount < EPSILON then completeRelease toUser u1
                     else (setRemaining remainingAmount u1)
                            \<lparr>accumulatedDepositAmountWei :=
                               remainingWei (accumulatedDepositAmountWei u1) tdw override\<rparr>
                else completeRelease toUser u1)
      in u2\<lparr>pendingReleaseAmount := None\<rparr>)"

definition release_confirm_yes ::
  "blockchain \<Rightarrow> nat \<Rightarrow> click \<Rightarrow> escrow \<Rightarrow> outcome \<times> escrow \<times> transfer_call list" where
  "release_confirm_yes releaseFunds decimals c e =
     (if \<not> eligible (status e) then (NoActiveEscrow, e, [])
      else if stale_prompt (releaseConfirmationMessageId e) (callbackMessageId c)
        then (ExpiredRequest, e, [])
      else if terminal (status e) then (AlreadySettled, e, [])
      else if buyerId e \<noteq> userId c \<and> sellerId e \<noteq> userId c \<and> \<not> isAdmin c
        then (AccessDenied, e, [])
      else
        let u = recordReleaseApproval c e
        in if \<not> canExecute u then (ApprovalRecorded, u, [])
           else if releaseTransactionHash u \<noteq> [] \<or> terminal (status u)
             then (AlreadySettled, u, [])
           else
             let tdw = totalDepositedWei u;
                 ftd = formattedTotalDeposited decimals u
             in if buyerAddress u = [] \<or> totalDeposited u \<le> 0
                  then (MissingAddressOrZeroAmount, u, [])
                else
                  let releaseAmount = requestedRelease decimals u
                  in if releaseAmount > ftd then (ExceedsBalance, u, [])
                     else if releaseAmount \<le> 0 then (NonPositiveAmount, u, [])
                     else
                       let override = amountWeiOverride tdw releaseAmount ftd decimals;
                           toUser = actualAmountToUser u releaseAmount
                       in if toUser \<le> 0 then (NetAmountTooSmall, u, [])
                          else
                            let call = (toUser, None)
                            in (case releaseFunds call of
                                  Result ok h \<Rightarrow>
                                    if \<not> ok then (TransferFailed, u, [call])
                                    else if h = [] then (TransferFailed, u, [call])
                                    else (Settled,
                                          releaseSettle decimals releaseAmount override h u,
                                          [call])
                                | Throws \<Rightarrow> (TransferFailed, u, [call])
                                | NoResult \<Rightarrow> (TransferFailed, u, [call])))"

subsection \<open>Refund by consent: \<^verbatim>\<open>refund_confirm_yes_\<close> (lines 3020-3245)\<close>

text \<open>The chain of branches holds a second \<^verbatim>\<open>refund_confirm_yes_\<close> branch at line 3472;
  the one at line 3020 comes first and takes every such callback.\<close>

text \<open>Lines 3043-3049: an admin who is neither party sets the flags of both parties.\<close>

definition recordRefundApproval :: "click \<Rightarrow> escrow \<Rightarrow> escrow" where
  "recordRefundApproval c e =
     (let isBuyer = (buyerId e = userId c);
          isSeller = (sellerId e = userId c);
          e1 = (if isBuyer then e\<lparr>buyerConfirmedRefund := True\<rparr> else e);
          e2 = (if isSeller then e1\<lparr>sellerConfirmedRefund := True\<rparr> else e1)
      in if isAdmin c \<and> \<not> isBuyer \<and> \<not> isSeller
         then e2\<lparr>buyerConfirmedRefund := True, sellerConfirmedRefund := True\<rparr> else e2)"

text \<open>Lines 3121-3127: \<^verbatim>\<open>Math.min(pendingRefundAmount || totalDeposited, totalDeposited)\<close>
  with \<^verbatim>\<open>totalDeposited = Number(accumulatedDepositAmount || depositAmount || 0)\<close>.\<close>

definition refundTotalDeposited :: "escrow \<Rightarrow> rat" where
  "refundTotalDeposited u = firstTruthy3 (accumulatedDepositAmount u) (depositAmount u) 0"

definition refundAmount :: "escrow \<Rightarrow> rat" where
  "refundAmount u =
     (let pendingAmt = (case pendingRefundAmount u of
                          Some p \<Rightarrow> if p \<noteq> 0 then p else refundTotalDeposited u
                        | None \<Rightarrow> refundTotalDeposited u)
      in min pendingAmt (refundTotalDeposited u))"

text \<open>Lines 3160-3171: the amount handed to \<^verbatim>\<open>refundFunds\<close>.\<close>

definition refundAmountToContract :: "nat \<Rightarrow> escrow \<Rightarrow> rat" where
  "refundAmountToContract decimals u =
     (let refundAmountNum = toFixedNumber (refundAmount u) decimals;
          amountToContract = refundAmountNum - networkFee u
      in if amountToContract \<le> 0 then refundAmountNum else amountToContract)"

text \<open>Lines 3184-3207: the ledger after \<^verbatim>\<open>refundFunds\<close> has resolved to an object with
  the hash \<open>h\<close>. The minor-unit mirror is not written here.\<close>

definition zeroDecimalLedger :: "escrow \<Rightarrow> escrow" where
  "zeroDecimalLedger e =
     e\<lparr>accumulatedDepositAmount := 0, depositAmount := 0, confirmedAmount := 0\<rparr>"

definition refundSettle :: "string \<Rightarrow> escrow \<Rightarrow> escrow" where
  "refundSettle h u =
     (let amount = refundAmount u;
          td = refundTotalDeposited u;
          isFullAmount = (\<bar>amount - td\<bar> < EPSILON);
          u1 = u\<lparr>refundTransactionHash := h\<rparr>;
          u2 = (if \<not> isFullAmount then
                  let remaining = td - amount
                  in if remaining < EPSILON then zeroDecimalLedger (u1\<lparr>status := refunded\<rparr>)
                     else setRemaining remaining u1
                else zeroDecimalLedger (u1\<lparr>status := refunded\<rparr>))
      in u2\<lparr>pendingRefundAmount := None\<rparr>)"

text \<open>The branch. \<open>edit_ok\<close> tells whether the edit of the confirmation message at line
  3085 succeeds; when it throws, the branch goes on to the gate of line 3115. The
  document is loaded without a filter on its status, and neither the status nor a
  recorded refund hash is looked at before \<^verbatim>\<open>refundFunds\<close> is called.\<close>

definition refund_confirm_yes ::
  "blockchain \<Rightarrow> bool \<Rightarrow> nat \<Rightarrow> click \<Rightarrow> escrow \<Rightarrow> outcome \<times> escrow \<times> transfer_call list" where
  "refund_confirm_yes refundFunds edit_ok decimals c e =
     (if stale_prompt (refundConfirmationMessageId e) (callbackMessageId c)
        then (ExpiredRequest, e, [])
      else if buyerId e \<noteq> userId c \<and> sellerId e \<noteq> userId c \<and> \<not> isAdmin c
        then (AccessDenied, e, [])
      else
        let u = recordRefundApproval c e;
            bothConfirmed = (buyerConfirmedRefund u \<and> sellerConfirmedRefund u);
            showButtons = (\<not> bothConfirmed)
        in if showButtons \<and> edit_ok then (ApprovalRecorded, u, [])
           else if bothConfirmed then
             (if refundAmount u \<le> 0 then (InvalidAmount, u, [])
              else
                let call = (refundAmountToContract decimals u, None)
                in (case refundFunds call of
                      Result ok h \<Rightarrow> (Settled, refundSettle h u, [call])
                    | Throws \<Rightarrow> (TransferFailed, u, [call])
                    | NoResult \<Rightarrow> (TransferFailed, u, [call])))
           else (NoReply, u, []))"

subsection \<open>Release after fiat receipt: \<^verbatim>\<open>fiat_release_confirm_\<close> (lines 3831-4081)\<close>

text \<open>The seller, having reported the fiat payment as received, presses
  \<^verbatim>\<open>Confirm release\<close>. The branch reads no consent flag.\<close>

definition fiat_release_confirm ::
  "blockchain \<Rightarrow> nat \<Rightarrow> click \<Rightarrow> escrow \<Rightarrow> outcome \<times> escrow \<times> transfer_call list" where
  "fiat_release_confirm releaseFunds decimals c e =
     (if \<not> eligible (status e) then (NoActiveEscrow, e, [])
      else if sellerId e \<noteq> userId c then (AccessDenied, e, [])
      else
        let amount = formattedTotalDeposited decimals e
        in if buyerAddress e = [] \<or> amount \<le> 0 then (MissingAddressOrZeroAmount, e, [])
           else
             let amountToContract = amount - networkFee e;
                 call = (amountToContract, None)
             in (case releaseFunds call of
                   Result ok h \<Rightarrow>
                     if h = [] then (TransferFailed, e, [call])
                     else (Settled,
                           zeroLedger ((defaultQuantity amount e)
                             \<lparr>status := completed, releaseTransactionHash := h\<rparr>),
                           [call])
                 | Throws \<Rightarrow> (TransferFailed, e, [call])
                 | NoResult \<Rightarrow> (TransferFailed, e, [call])))"

subsection \<open>Scenario data\<close>

text \<open>The escrow of the specification's scenarios: 1000 units deposited, fee rate 0.5
  percent, network fee 0.3, buyer 1, seller 2, in state \<open>deposited\<close>, with open release
  and refund prompts (messages 7 and 8) and no consent given yet.\<close>

definition scenario :: escrow where
  "scenario =
     \<lparr>status = deposited, buyerId = 1, sellerId = 2,
      buyerAddress = ''0xb'', sellerAddress = ''0xs'', depositAddress = ''0xv'',
      quantity = 1000, feeRate = 1 / 2, networkFee = 3 / 10,
      depositAmount = 1000, confirmedAmount = 1000, accumulatedDepositAmount = 1000,
      accumulatedDepositAmountWei = None,
      transactionHash = ''0xd1'', partialTransactionHashes = [],
      depositTransactionFromAddress = ''0xs'', lastCheckedBlock = 0,
      buyerConfirmedRelease = False, sellerConfirmedRelease = False,
      adminConfirmedRelease = False,
      buyerConfirmedRefund = False, sellerConfirmedRefund = False,
      pendingReleaseAmount = None, pendingRefundAmount = None,
      releaseConfirmationMessageId = Some 7, refundConfirmationMessageId = Some 8,
      releaseTransactionHash = [], refundTransactionHash = [],
      partialReleaseTransactionHashes = [],
      buyerClosedTrade = False, sellerClosedTrade = False,
      tronPendingTxHash = [], tronPendingAmount = 0,
      tronManualVerificationPending = False\<rparr>"

text \<open>A transfer collaborator that always succeeds with the hash \<open>0xt\<close>.\<close>

definition chain_ok :: blockchain where
  "chain_ok call = Result True ''0xt''"

definition buyer_click :: "nat \<Rightarrow> click" where
  "buyer_click m = \<lparr>userId = 1, isAdmin = False, callbackMessageId = Some m\<rparr>"

definition seller_click :: "nat \<Rightarrow> click" where
  "seller_click m = \<lparr>userId = 2, isAdmin = False, callbackMessageId = Some m\<rparr>"

definition admin_click :: "nat \<Rightarrow> click" where
  "admin_click m = \<lparr>userId = 99, isAdmin = True, callbackMessageId = Some m\<rparr>"

text \<open>The scenario after the seller has approved a release, and the same with a
  partial release of 400 requested and a minor-unit mirror at 18 decimals.\<close>

definition seller_approved :: escrow where
  "seller_approved = scenario\<lparr>sellerConfirmedRelease := True\<rparr>"

definition partial_request :: escrow where
  "partial_request =
     scenario\<lparr>sellerConfirmedRelease := True, pendingReleaseAmount := Some 400,
              accumulatedDepositAmountWei := Some (1000 * 10 ^ 18)\<rparr>"

text \<open>The scenario before any deposit: status \<open>awaiting_deposit\<close>, agreed quantity 1000,
  empty ledger, no hash recorded. A transfer of \<open>v\<close> units to the vault with hash \<open>h\<close>.\<close>

definition awaiting_escrow :: escrow where
  "awaiting_escrow =
     scenario\<lparr>status := awaiting_deposit, depositAmount := 0, confirmedAmount := 0,
              accumulatedDepositAmount := 0, transactionHash := [],
              depositTransactionFromAddress := []\<rparr>"

definition deposit_tx :: "string \<Rightarrow> rat \<Rightarrow> transfer" where
  "deposit_tx h v = \<lparr>tx_from = ''0xS'', tx_to = ''0xV'', tx_hash = h, valueDecimal = v\<rparr>"

text \<open>The scenario after the seller has confirmed a refund, with a partial refund of
  \<open>p\<close> requested.\<close>

definition refund_request :: "rat \<Rightarrow> escrow" where
  "refund_request p = scenario\<lparr>sellerConfirmedRefund := True, pendingRefundAmount := Some p\<rparr>"

text \<open>A poll that returns the same transfer twice.\<close>

definition same_poll_twice :: "transfer list" where
  "same_poll_twice = [deposit_tx ''0xA1'' 400, deposit_tx ''0xA1'' 400]"

section \<open>Properties\<close>

text \<open>The equations that evaluate a handler on concrete data.\<close>

lemmas eval_defs =
  scenario_def seller_approved_def partial_request_def chain_ok_def buyer_click_def
  seller_click_def admin_click_def
  eligible_def terminal_def stale_prompt_def EPSILON_def Let_def
  firstTruthy3_def totalDeposited_def totalDepositedWei_def formatUnits_def
  formattedTotalDeposited_def toFixedUnits_def parseUnitsFixed_def toFixedNumber_def
  bigint_div_def proportionalWei_def amountWeiOverride_def remainingWei_def zeroLedger_def
  setRemaining_def defaultQuantity_def

lemmas release_defs =
  release_confirm_yes_def recordReleaseApproval_def canExecute_def actualAmountToUser_def
  completeRelease_def releaseSettle_def requestedRelease_def

lemmas refund_defs =
  refund_confirm_yes_def recordRefundApproval_def refundTotalDeposited_def refundAmount_def
  refundAmountToContract_def zeroDecimalLedger_def refundSettle_def refund_request_def

lemmas admin_defs =
  admin_release_confirm_yes_def adminReleaseAmount_def adminSettle_def

lemma floor_rat_numeral_div [simp]:
  "\<lfloor>(numeral a / numeral b :: rat)\<rfloor> = numeral a div numeral b"
  using floor_divide_of_int_eq [of "numeral a" "numeral b", where ?'a = rat] by simp

subsection \<open>Fields kept by the recording of an approval\<close>

lemma recordReleaseApproval_keeps [simp]:
  "status (recordReleaseApproval c e) = status e"
  "buyerAddress (recordReleaseApproval c e) = buyerAddress e"
  "feeRate (recordReleaseApproval c e) = feeRate e"
  "networkFee (recordReleaseApproval c e) = networkFee e"
  "depositAmount (recordReleaseApproval c e) = depositAmount e"
  "confirmedAmount (recordReleaseApproval c e) = confirmedAmount e"
  "accumulatedDepositAmount (recordReleaseApproval c e) = accumulatedDepositAmount e"
  "accumulatedDepositAmountWei (recordReleaseApproval c e) = accumulatedDepositAmountWei e"
  "pendingReleaseAmount (recordReleaseApproval c e) = pendingReleaseAmount e"
  "releaseTransactionHash (recordReleaseApproval c e) = releaseTransactionHash e"
  "buyerConfirmedRefund (recordReleaseApproval c e) = buyerConfirmedRefund e"
  "sellerConfirmedRefund (recordReleaseApproval c e) = sellerConfirmedRefund e"
  by (simp_all add: recordReleaseApproval_def Let_def)

lemma totals_recordReleaseApproval [simp]:
  "totalDeposited (recordReleaseApproval c e) = totalDeposited e"
  "totalDepositedWei (recordReleaseApproval c e) = totalDepositedWei e"
  "actualAmountToUser (recordReleaseApproval c e) g = actualAmountToUser e g"
  by (simp_all add: totalDeposited_def totalDepositedWei_def actualAmountToUser_def)

lemma formatted_recordReleaseApproval [simp]:
  "formattedTotalDeposited d (recordReleaseApproval c e) = formattedTotalDeposited d e"
  by (simp add: formattedTotalDeposited_def split: option.splits)

lemma requestedRelease_recordReleaseApproval [simp]:
  "requestedRelease d (recordReleaseApproval c e) = requestedRelease d e"
  by (simp add: requestedRelease_def split: option.splits)

lemma recordRefundApproval_keeps [simp]:
  "pendingRefundAmount (recordRefundApproval c e) = pendingRefundAmount e"
  "accumulatedDepositAmount (recordRefundApproval c e) = accumulatedDepositAmount e"
  "depositAmount (recordRefundApproval c e) = depositAmount e"
  "networkFee (recordRefundApproval c e) = networkFee e"
  by (simp_all add: recordRefundApproval_def Let_def)

lemma refundTotalDeposited_recordRefundApproval [simp]:
  "refundTotalDeposited (recordRefundApproval c e) = refundTotalDeposited e"
  by (simp add: refundTotalDeposited_def)

lemma refundSettle_flags [simp]:
  "buyerConfirmedRefund (refundSettle h u) = buyerConfirmedRefund u"
  "sellerConfirmedRefund (refundSettle h u) = sellerConfirmedRefund u"
  by (simp_all add: refundSettle_def Let_def setRemaining_def zeroDecimalLedger_def)

lemma recordRefundApproval_admin:
  "isAdmin c \<Longrightarrow> buyerId e \<noteq> userId c \<Longrightarrow> sellerId e \<noteq> userId c \<Longrightarrow>
   recordRefundApproval c e = e\<lparr>buyerConfirmedRefund := True, sellerConfirmedRefund := True\<rparr>"
  by (simp add: recordRefundApproval_def Let_def)

lemma recordRefundApproval_buyer:
  "recordRefundApproval \<lparr>userId = buyerId e, isAdmin = False, callbackMessageId = m\<rparr>
     (e\<lparr>sellerConfirmedRefund := True\<rparr>)
   = e\<lparr>buyerConfirmedRefund := True, sellerConfirmedRefund := True\<rparr>"
  by (simp add: recordRefundApproval_def Let_def)

subsection \<open>The minor-unit mirror after a settlement\<close>

lemma remainingWei_cases:
  "remainingWei old tdw ov = old \<or> (\<exists>w. remainingWei old tdw ov = Some w \<and> 0 \<le> w)"
  by (auto simp: remainingWei_def split: option.splits)

lemma remainingWei_clamp:
  "remainingWei old (Some w) (Some a) = Some (max 0 (w - a))"
  by (simp add: remainingWei_def max_def)

lemma adminSettle_wei:
  "accumulatedDepositAmountWei (adminSettle d r ov h u) = accumulatedDepositAmountWei u
   \<or> (\<exists>w. accumulatedDepositAmountWei (adminSettle d r ov h u) = Some w \<and> 0 \<le> w)"
  using remainingWei_cases [of "accumulatedDepositAmountWei u" "totalDepositedWei u" ov]
  by (auto simp: adminSettle_def Let_def setRemaining_def zeroLedger_def defaultQuantity_def)

lemma releaseSettle_wei:
  "accumulatedDepositAmountWei (releaseSettle d r ov h u) = accumulatedDepositAmountWei u
   \<or> (\<exists>w. accumulatedDepositAmountWei (releaseSettle d r ov h u) = Some w \<and> 0 \<le> w)"
  using remainingWei_cases [of "accumulatedDepositAmountWei u" "totalDepositedWei u" ov]
  by (auto simp: releaseSettle_def Let_def setRemaining_def zeroLedger_def defaultQuantity_def
      completeRelease_def)

lemma admin_release_wei:
  "accumulatedDepositAmountWei (fst (snd (admin_release_confirm_yes rf d c e)))
     = accumulatedDepositAmountWei e
   \<or> (\<exists>w. accumulatedDepositAmountWei (fst (snd (admin_release_confirm_yes rf d c e))) = Some w
          \<and> 0 \<le> w)"
  using adminSettle_wei [of d _ _ _ "e\<lparr>adminConfirmedRelease := True\<rparr>"]
  by (auto simp: admin_release_confirm_yes_def Let_def split: transfer_result.splits)

lemma release_wei:
  "accumulatedDepositAmountWei (fst (snd (release_confirm_yes rf d c e)))
     = accumulatedDepositAmountWei e
   \<or> (\<exists>w. accumulatedDepositAmountWei (fst (snd (release_confirm_yes rf d c e))) = Some w
          \<and> 0 \<le> w)"
  using releaseSettle_wei [of d _ _ _ "recordReleaseApproval c e"]
  by (auto simp: release_confirm_yes_def Let_def split: transfer_result.splits)

text \<open>
  Claim C10. In the admin release branch and in the release-by-consent branch alike, the
  minor-unit mirror \<open>accumulatedDepositAmountWei\<close> of the saved document is either the
  value it had before the press or a non-negative integer; the remainder written by a
  partial settlement is the mirror less the settled minor units, with \<open>0\<close> in place of a
  negative difference.
\<close>

theorem wei_mirror_never_negative:
  "(accumulatedDepositAmountWei (fst (snd (admin_release_confirm_yes rf d c e)))
      = accumulatedDepositAmountWei e
    \<or> (\<exists>w. accumulatedDepositAmountWei (fst (snd (admin_release_confirm_yes rf d c e))) = Some w
           \<and> 0 \<le> w))
   \<and> (accumulatedDepositAmountWei (fst (snd (release_confirm_yes rf d c e)))
      = accumulatedDepositAmountWei e
    \<or> (\<exists>w. accumulatedDepositAmountWei (fst (snd (release_confirm_yes rf d c e))) = Some w
           \<and> 0 \<le> w))
   \<and> remainingWei old (Some t) (Some a) = Some (if t - a < 0 then 0 else t - a)"
  using admin_release_wei [of rf d c e] release_wei [of rf d c e]
  by (simp add: remainingWei_def)

theorem wei_mirror_never_negative_witness:
  "(accumulatedDepositAmountWei (fst (snd (admin_release_confirm_yes chain_ok 18 (admin_click 7) partial_request)))
      = accumulatedDepositAmountWei partial_request
    \<or> (\<exists>w. accumulatedDepositAmountWei
              (fst (snd (admin_release_confirm_yes chain_ok 18 (admin_click 7) partial_request))) = Some w
           \<and> 0 \<le> w))
   \<and> (accumulatedDepositAmountWei (fst (snd (release_confirm_yes chain_ok 18 (admin_click 7) partial_request)))
      = accumulatedDepositAmountWei partial_request
    \<or> (\<exists>w. accumulatedDepositAmountWei
              (fst (snd (release_confirm_yes chain_ok 18 (admin_click 7) partial_request))) = Some w
           \<and> 0 \<le> w))
   \<and> remainingWei None (Some 5) (Some 7) = Some (if (5::int) - 7 < 0 then 0 else 5 - 7)"
  by (rule wei_mirror_never_negative)

subsection \<open>Refund approval by an admin\<close>

text \<open>
  Claim C9. In the refund branch, a press by an admin who is neither the buyer nor the
  seller, on a prompt that is not stale, leaves both \<open>buyerConfirmedRefund\<close> and
  \<open>sellerConfirmedRefund\<close> true in the saved document (the record has no admin refund
  flag), and the whole run, saved document included, equals the run in which the buyer
  presses after the seller has confirmed.
\<close>

theorem refund_admin_sets_both_party_flags:
  assumes "isAdmin c" and "buyerId e \<noteq> userId c" and "sellerId e \<noteq> userId c"
    and "\<not> stale_prompt (refundConfirmationMessageId e) (callbackMessageId c)"
  shows "buyerConfirmedRefund (fst (snd (refund_confirm_yes rf ok d c e)))
       \<and> sellerConfirmedRefund (fst (snd (refund_confirm_yes rf ok d c e)))
       \<and> refund_confirm_yes rf ok d c e
         = refund_confirm_yes rf ok d
             \<lparr>userId = buyerId e, isAdmin = False, callbackMessageId = callbackMessageId c\<rparr>
             (e\<lparr>sellerConfirmedRefund := True\<rparr>)"
proof -
  let ?u = "e\<lparr>buyerConfirmedRefund := True, sellerConfirmedRefund := True\<rparr>"
  let ?call = "(refundAmountToContract d ?u, None :: int option)"
  let ?run = "if refundAmount ?u \<le> 0 then (InvalidAmount, ?u, [])
       else (case rf ?call of
               Result s h \<Rightarrow> (Settled, refundSettle h ?u, [?call])
             | Throws \<Rightarrow> (TransferFailed, ?u, [?call])
             | NoResult \<Rightarrow> (TransferFailed, ?u, [?call]))"
  have admin: "recordRefundApproval c e = ?u"
    using assms by (simp add: recordRefundApproval_admin)
  have by_admin: "refund_confirm_yes rf ok d c e = ?run"
    using assms by (simp add: refund_confirm_yes_def admin Let_def)
  have by_buyer: "refund_confirm_yes rf ok d
             \<lparr>userId = buyerId e, isAdmin = False, callbackMessageId = callbackMessageId c\<rparr>
             (e\<lparr>sellerConfirmedRefund := True\<rparr>) = ?run"
    using assms(4) by (simp add: refund_confirm_yes_def recordRefundApproval_buyer Let_def)
  have flags: "buyerConfirmedRefund (fst (snd (refund_confirm_yes rf ok d c e)))
       \<and> sellerConfirmedRefund (fst (snd (refund_confirm_yes rf ok d c e)))"
    unfolding by_admin by (simp split: transfer_result.splits)
  show ?thesis using flags by_admin by_buyer by simp
qed

theorem refund_admin_sets_both_party_flags_witness:
  "buyerConfirmedRefund (fst (snd (refund_confirm_yes chain_ok True 18 (admin_click 8) scenario)))
   \<and> sellerConfirmedRefund (fst (snd (refund_confirm_yes chain_ok True 18 (admin_click 8) scenario)))
   \<and> refund_confirm_yes chain_ok True 18 (admin_click 8) scenario
     = refund_confirm_yes chain_ok True 18 (buyer_click 8) (scenario\<lparr>sellerConfirmedRefund := True\<rparr>)"
proof -
  have a: "isAdmin (admin_click 8)" by (simp add: admin_click_def)
  have b: "buyerId scenario \<noteq> userId (admin_click 8)" by (simp add: admin_click_def scenario_def)
  have s: "sellerId scenario \<noteq> userId (admin_click 8)" by (simp add: admin_click_def scenario_def)
  have p: "\<not> stale_prompt (refundConfirmationMessageId scenario) (callbackMessageId (admin_click 8))"
    by (simp add: admin_click_def scenario_def stale_prompt_def)
  have c: "\<lparr>userId = buyerId scenario, isAdmin = False,
             callbackMessageId = callbackMessageId (admin_click 8)\<rparr> = buyer_click 8"
    by (simp add: admin_click_def buyer_click_def scenario_def)
  show ?thesis
    using refund_admin_sets_both_party_flags [OF a b s p, of chain_ok True 18] unfolding c .
qed

subsection \<open>Runs of the release-by-consent branch\<close>

lemma eligible_not_terminal: "eligible s \<Longrightarrow> \<not> terminal s"
  by (auto simp: eligible_def terminal_def)

lemma completeRelease_fields [simp]:
  "status (completeRelease a u) = completed"
  "accumulatedDepositAmount (completeRelease a u) = 0"
  "depositAmount (completeRelease a u) = 0"
  "confirmedAmount (completeRelease a u) = 0"
  "accumulatedDepositAmountWei (completeRelease a u) = Some 0"
  by (simp_all add: completeRelease_def zeroLedger_def)

lemma releaseSettle_full:
  assumes "formattedTotalDeposited d u - g < EPSILON"
  shows "releaseSettle d g ov h u =
    (completeRelease (actualAmountToUser u g)
       (u\<lparr>releaseTransactionHash := h,
          partialReleaseTransactionHashes := partialReleaseTransactionHashes u @ [h]\<rparr>))
     \<lparr>pendingReleaseAmount := None\<rparr>"
  using assms by (simp add: releaseSettle_def Let_def)

lemma releaseSettle_partial:
  assumes "\<not> formattedTotalDeposited d u - g < EPSILON"
    and "\<bar>actualAmountToUser u g - ((formattedTotalDeposited d u - networkFee u)
            - (formattedTotalDeposited d u - networkFee u) * feeRate u / 100)\<bar> > EPSILON"
  shows "releaseSettle d g ov h u =
    (setRemaining (formattedTotalDeposited d u - g)
       (u\<lparr>releaseTransactionHash := h,
          partialReleaseTransactionHashes := partialReleaseTransactionHashes u @ [h]\<rparr>))
     \<lparr>accumulatedDepositAmountWei :=
        remainingWei (accumulatedDepositAmountWei u) (totalDepositedWei u) ov,
      pendingReleaseAmount := None\<rparr>"
  using assms by (simp add: releaseSettle_def Let_def)

text \<open>The run of the branch when every guard passes and the transfer succeeds.\<close>

lemma release_confirm_yes_run:
  assumes st: "eligible (status e)"
    and pr: "\<not> stale_prompt (releaseConfirmationMessageId e) (callbackMessageId c)"
    and party: "buyerId e = userId c \<or> sellerId e = userId c \<or> isAdmin c"
    and quorum: "canExecute (recordReleaseApproval c e)"
    and nohash: "releaseTransactionHash e = []"
    and addr: "buyerAddress e \<noteq> []"
    and td: "totalDeposited e > 0"
    and g: "g = requestedRelease d e"
    and le: "g \<le> formattedTotalDeposited d e" and pos: "0 < g"
    and net: "0 < actualAmountToUser e g"
    and ok: "rf (actualAmountToUser e g, None) = Result True h" and h: "h \<noteq> []"
  shows "release_confirm_yes rf d c e =
     (Settled,
      releaseSettle d g (amountWeiOverride (totalDepositedWei e) g (formattedTotalDeposited d e) d) h
        (recordReleaseApproval c e),
      [(actualAmountToUser e g, None)])"
  using assms eligible_not_terminal [OF st]
  by (auto simp: release_confirm_yes_def Let_def)

subsection \<open>Minor units of the scenario amounts\<close>

lemma floor_int_half: "\<lfloor>(of_int k :: rat) + 1 / 2\<rfloor> = k"
  by (rule floor_unique) simp_all

lemma toFixedUnits_whole: "0 \<le> n \<Longrightarrow> toFixedUnits (of_int n) d = n * 10 ^ d"
proof -
  assume n: "0 \<le> n"
  have "(of_int n :: rat) * 10 ^ d = of_int (n * 10 ^ d)" by simp
  then have "\<lfloor>(of_int n :: rat) * 10 ^ d + 1 / 2\<rfloor> = n * 10 ^ d"
    using floor_int_half [of "n * 10 ^ d"] by simp
  then show ?thesis using n by (simp add: toFixedUnits_def)
qed

lemma parse400: "parseUnitsFixed 400 d = Some (400 * 10 ^ d)"
  using toFixedUnits_whole [of 400 d] by (simp add: parseUnitsFixed_def)

lemma parse1000: "parseUnitsFixed 1000 d = Some (1000 * 10 ^ d)"
  using toFixedUnits_whole [of 1000 d] by (simp add: parseUnitsFixed_def)

lemma prop400: "proportionalWei (1000 * 10 ^ d) 400 1000 d = Some (400 * 10 ^ d)"
proof -
  have nz: "(1000 * 10 ^ d :: int) \<noteq> 0" by simp
  have "(1000 * 10 ^ d * (400 * 10 ^ d) :: int) = (400 * 10 ^ d) * (1000 * 10 ^ d)" by simp
  then have q: "(1000 * 10 ^ d * (400 * 10 ^ d) :: int) div (1000 * 10 ^ d) = 400 * 10 ^ d"
    using nz by (metis nonzero_mult_div_cancel_right)
  have s1: "sgn (1000 * 10 ^ d * (400 * 10 ^ d) :: int) = 1" by (simp add: sgn_mult)
  have s2: "sgn (1000 * 10 ^ d :: int) = 1" by simp
  have a1: "\<bar>1000 * 10 ^ d * (400 * 10 ^ d) :: int\<bar> = 1000 * 10 ^ d * (400 * 10 ^ d)" by simp
  have a2: "\<bar>1000 * 10 ^ d :: int\<bar> = 1000 * 10 ^ d" by simp
  have "bigint_div (1000 * 10 ^ d * (400 * 10 ^ d)) (1000 * 10 ^ d) = Some (400 * 10 ^ d)"
    unfolding bigint_div_def using nz q s1 s2 a1 a2 by simp
  then show ?thesis by (simp add: proportionalWei_def parse400 parse1000)
qed

lemma override400:
  "amountWeiOverride (Some (1000 * 10 ^ d)) 400 1000 d = Some (400 * 10 ^ d)"
  "amountWeiOverride None 400 1000 d = Some (400 * 10 ^ d)"
  by (simp_all add: amountWeiOverride_def Let_def EPSILON_def prop400 parse400)

lemma ftd_1000:
  assumes "accumulatedDepositAmount e = 1000"
    and "accumulatedDepositAmountWei e = None \<or> accumulatedDepositAmountWei e = Some (1000 * 10 ^ d)"
  shows "formattedTotalDeposited d e = 1000" and "totalDeposited e = 1000"
  using assms
  by (auto simp: formattedTotalDeposited_def totalDepositedWei_def totalDeposited_def
      firstTruthy3_def formatUnits_def)

subsection \<open>The release scenarios of the specification\<close>

text \<open>The full release in the release-by-consent branch. An escrow with
  \<open>accumulatedDepositAmount = 1000\<close>, \<open>feeRate = 0.5\<close>, \<open>networkFee = 0.3\<close> and no pending
  partial amount (its minor-unit mirror absent or equal to 1000 units), on which a press
  completes the quorum and every guard passes: \<^verbatim>\<open>releaseFunds\<close> is called once, with
  \<open>994.7\<close>, and when it succeeds the saved document has \<open>accumulatedDepositAmount = 0\<close>
  and status \<open>completed\<close>.\<close>

lemma release_by_consent_full:
  assumes acc: "accumulatedDepositAmount e = 1000"
    and fee: "feeRate e = 1 / 2" and nf: "networkFee e = 3 / 10"
    and pend: "pendingReleaseAmount e = None"
    and mirror: "accumulatedDepositAmountWei e = None
                 \<or> accumulatedDepositAmountWei e = Some (1000 * 10 ^ d)"
    and st: "eligible (status e)"
    and pr: "\<not> stale_prompt (releaseConfirmationMessageId e) (callbackMessageId c)"
    and party: "buyerId e = userId c \<or> sellerId e = userId c \<or> isAdmin c"
    and quorum: "canExecute (recordReleaseApproval c e)"
    and nohash: "releaseTransactionHash e = []"
    and addr: "buyerAddress e \<noteq> []"
    and ok: "rf (9947 / 10, None) = Result True h" and h: "h \<noteq> []"
  shows "fst (release_confirm_yes rf d c e) = Settled
       \<and> snd (snd (release_confirm_yes rf d c e)) = [(9947 / 10, None)]
       \<and> accumulatedDepositAmount (fst (snd (release_confirm_yes rf d c e))) = 0
       \<and> status (fst (snd (release_confirm_yes rf d c e))) = completed"
proof -
  have ftd: "formattedTotalDeposited d e = 1000" and td: "totalDeposited e = 1000"
    using ftd_1000 [OF acc mirror] by simp_all
  have net: "actualAmountToUser e 1000 = 9947 / 10"
    by (simp add: actualAmountToUser_def fee nf)
  have run: "release_confirm_yes rf d c e =
     (Settled,
      releaseSettle d 1000
        (amountWeiOverride (totalDepositedWei e) 1000 (formattedTotalDeposited d e) d) h
        (recordReleaseApproval c e),
      [(actualAmountToUser e 1000, None)])"
    by (rule release_confirm_yes_run [OF st pr party quorum nohash addr])
       (simp_all add: td ftd pend net ok h requestedRelease_def)
  have full: "formattedTotalDeposited d (recordReleaseApproval c e) - 1000 < EPSILON"
    by (simp add: ftd EPSILON_def)
  show ?thesis
    unfolding run releaseSettle_full [OF full] by (simp add: net)
qed

lemma release_by_consent_full_at_scenario:
  "fst (release_confirm_yes chain_ok 18 (buyer_click 7) seller_approved) = Settled
   \<and> snd (snd (release_confirm_yes chain_ok 18 (buyer_click 7) seller_approved))
       = [(9947 / 10, None)]
   \<and> accumulatedDepositAmount
       (fst (snd (release_confirm_yes chain_ok 18 (buyer_click 7) seller_approved))) = 0
   \<and> status (fst (snd (release_confirm_yes chain_ok 18 (buyer_click 7) seller_approved)))
       = completed"
  by (rule release_by_consent_full [where h = "''0xt''"])
     (simp_all add: seller_approved_def scenario_def buyer_click_def chain_ok_def eligible_def
        stale_prompt_def canExecute_def recordReleaseApproval_def Let_def)

text \<open>
  Claim C5, evaluated on the code. The escrow of the scenario (1000 deposited, fee rate
  0.5 percent, network fee 0.3, no pending partial amount, release prompt open) reaches
  the release quorum by the admin alone, who confirms in the admin release branch. The
  claim expects one transfer of \<open>994.7\<close>, then \<open>accumulatedDepositAmount = 0\<close> and status
  \<open>completed\<close>. The branch calls \<^verbatim>\<open>releaseFunds\<close> twice, with \<open>4972 / 5 = 994.4\<close> and
  with \<open>1988803 / 1990\<close> (about 999.4); the saved document keeps the status \<open>deposited\<close>
  and \<open>60 / 199\<close> (about 0.30) on the ledger.
\<close>

theorem admin_quorum_full_release_diverges:
  "accumulatedDepositAmount scenario = 1000 \<and> feeRate scenario = 1 / 2
   \<and> networkFee scenario = 3 / 10 \<and> pendingReleaseAmount scenario = None
   \<and> isAdmin (admin_click 7)
   \<and> fst (admin_release_confirm_yes chain_ok 18 (admin_click 7) scenario) = Settled
   \<and> map fst (snd (snd (admin_release_confirm_yes chain_ok 18 (admin_click 7) scenario)))
       = [4972 / 5, 1988803 / 1990]
   \<and> snd (snd (admin_release_confirm_yes chain_ok 18 (admin_click 7) scenario))
       \<noteq> [(9947 / 10, None)]
   \<and> accumulatedDepositAmount
       (fst (snd (admin_release_confirm_yes chain_ok 18 (admin_click 7) scenario))) = 60 / 199
   \<and> accumulatedDepositAmount
       (fst (snd (admin_release_confirm_yes chain_ok 18 (admin_click 7) scenario))) \<noteq> 0
   \<and> status (fst (snd (admin_release_confirm_yes chain_ok 18 (admin_click 7) scenario)))
       = deposited
   \<and> status (fst (snd (admin_release_confirm_yes chain_ok 18 (admin_click 7) scenario)))
       \<noteq> completed"
  by (simp add: eval_defs admin_defs)

text \<open>The partial release in the release-by-consent branch. The same escrow with
  \<open>pendingReleaseAmount = 400\<close>: \<^verbatim>\<open>releaseFunds\<close> is called once, with
  \<open>397.7 = 400 - 400 * 0.005 - 0.3\<close>; when it succeeds the saved document has
  \<open>accumulatedDepositAmount\<close>, \<open>depositAmount\<close> and \<open>confirmedAmount\<close> at \<open>600\<close>, a mirror
  of 1000 units becomes one of 600 units, the status is the one before the press and
  \<open>pendingReleaseAmount\<close> is cleared.\<close>

lemma release_by_consent_partial:
  assumes acc: "accumulatedDepositAmount e = 1000"
    and fee: "feeRate e = 1 / 2" and nf: "networkFee e = 3 / 10"
    and pend: "pendingReleaseAmount e = Some 400"
    and mirror: "accumulatedDepositAmountWei e = None
                 \<or> accumulatedDepositAmountWei e = Some (1000 * 10 ^ d)"
    and st: "eligible (status e)"
    and pr: "\<not> stale_prompt (releaseConfirmationMessageId e) (callbackMessageId c)"
    and party: "buyerId e = userId c \<or> sellerId e = userId c \<or> isAdmin c"
    and quorum: "canExecute (recordReleaseApproval c e)"
    and nohash: "releaseTransactionHash e = []"
    and addr: "buyerAddress e \<noteq> []"
    and ok: "rf (3977 / 10, None) = Result True h" and h: "h \<noteq> []"
  shows "fst (release_confirm_yes rf d c e) = Settled
       \<and> snd (snd (release_confirm_yes rf d c e)) = [(3977 / 10, None)]
       \<and> accumulatedDepositAmount (fst (snd (release_confirm_yes rf d c e))) = 600
       \<and> depositAmount (fst (snd (release_confirm_yes rf d c e))) = 600
       \<and> confirmedAmount (fst (snd (release_confirm_yes rf d c e))) = 600
       \<and> accumulatedDepositAmountWei (fst (snd (release_confirm_yes rf d c e)))
           = (if accumulatedDepositAmountWei e = None then None else Some (600 * 10 ^ d))
       \<and> status (fst (snd (release_confirm_yes rf d c e))) = status e
       \<and> pendingReleaseAmount (fst (snd (release_confirm_yes rf d c e))) = None"
proof -
  let ?u = "recordReleaseApproval c e"
  have ftd: "formattedTotalDeposited d e = 1000" and td: "totalDeposited e = 1000"
    using ftd_1000 [OF acc mirror] by simp_all
  have net: "actualAmountToUser e 400 = 3977 / 10"
    by (simp add: actualAmountToUser_def fee nf)
  have run: "release_confirm_yes rf d c e =
     (Settled,
      releaseSettle d 400
        (amountWeiOverride (totalDepositedWei e) 400 (formattedTotalDeposited d e) d) h ?u,
      [(actualAmountToUser e 400, None)])"
    by (rule release_confirm_yes_run [OF st pr party quorum nohash addr])
       (simp_all add: td ftd pend net ok h requestedRelease_def)
  have ov: "amountWeiOverride (totalDepositedWei e) 400 (formattedTotalDeposited d e) d
            = Some (400 * 10 ^ d)"
    using mirror by (auto simp: ftd totalDepositedWei_def override400)
  have notfull: "\<not> formattedTotalDeposited d ?u - 400 < EPSILON"
    by (simp add: ftd EPSILON_def)
  have part: "\<bar>actualAmountToUser ?u 400 - ((formattedTotalDeposited d ?u - networkFee ?u)
            - (formattedTotalDeposited d ?u - networkFee ?u) * feeRate ?u / 100)\<bar> > EPSILON"
    by (simp add: ftd net fee nf EPSILON_def)
  have wei: "remainingWei (accumulatedDepositAmountWei e) (totalDepositedWei e) (Some (400 * 10 ^ d))
       = (if accumulatedDepositAmountWei e = None then None else Some (600 * 10 ^ d))"
    using mirror by (auto simp: remainingWei_def totalDepositedWei_def)
  show ?thesis
    unfolding run ov releaseSettle_partial [OF notfull part]
    by (simp add: net ftd wei setRemaining_def)
qed

text \<open>
  Claim C6, evaluated on the code. The escrow of the scenario with
  \<open>pendingReleaseAmount = 400\<close>, a mirror of 1000 units at 18 decimals and the seller's
  release approval; the buyer confirms, which completes the quorum. The net amount is
  computed against 400 (\<open>397.7\<close>), the ledger and the mirror go to 600 and the status
  stays \<open>deposited\<close>, as the claim says. The claim's last clause fails: lines 2656-2716
  clear \<open>pendingReleaseAmount\<close> only, and in the saved document
  \<open>buyerConfirmedRelease\<close> and \<open>sellerConfirmedRelease\<close> are still true.
\<close>

theorem partial_release_keeps_consent_flags:
  "fst (release_confirm_yes chain_ok 18 (buyer_click 7) partial_request) = Settled
   \<and> snd (snd (release_confirm_yes chain_ok 18 (buyer_click 7) partial_request))
       = [(3977 / 10, None)]
   \<and> accumulatedDepositAmount
       (fst (snd (release_confirm_yes chain_ok 18 (buyer_click 7) partial_request))) = 600
   \<and> accumulatedDepositAmountWei
       (fst (snd (release_confirm_yes chain_ok 18 (buyer_click 7) partial_request)))
       = Some (600 * 10 ^ 18)
   \<and> status (fst (snd (release_confirm_yes chain_ok 18 (buyer_click 7) partial_request)))
       = deposited
   \<and> pendingReleaseAmount
       (fst (snd (release_confirm_yes chain_ok 18 (buyer_click 7) partial_request))) = None
   \<and> buyerConfirmedRelease
       (fst (snd (release_confirm_yes chain_ok 18 (buyer_click 7) partial_request)))
   \<and> sellerConfirmedRelease
       (fst (snd (release_confirm_yes chain_ok 18 (buyer_click 7) partial_request)))"
  by (simp add: eval_defs release_defs)

text \<open>So the release quorum still stands in the saved document.\<close>

theorem partial_release_keeps_consent_flags_witness:
  "fst (release_confirm_yes chain_ok 18 (buyer_click 7) partial_request) = Settled
   \<and> canExecute (fst (snd (release_confirm_yes chain_ok 18 (buyer_click 7) partial_request)))"
  using partial_release_keeps_consent_flags by (simp add: canExecute_def)

text \<open>The same holds for the admin flag when an admin who is no party confirms in this
  branch: \<open>adminConfirmedRelease\<close> is still true after the partial release.\<close>

lemma partial_release_keeps_admin_flag:
  "fst (release_confirm_yes chain_ok 18 (admin_click 7) partial_request) = Settled
   \<and> adminConfirmedRelease
       (fst (snd (release_confirm_yes chain_ok 18 (admin_click 7) partial_request)))"
  by (simp add: eval_defs release_defs)

text \<open>The admin release branch, for contrast, resets its consent flag with every
  settlement (line 2153).\<close>

lemma admin_release_resets_admin_flag:
  "fst (admin_release_confirm_yes rf d c e) = Settled \<Longrightarrow>
   \<not> adminConfirmedRelease (fst (snd (admin_release_confirm_yes rf d c e)))"
  by (auto simp: admin_release_confirm_yes_def adminSettle_def Let_def setRemaining_def
      zeroLedger_def defaultQuantity_def split: if_splits transfer_result.splits)

subsection \<open>Deposit detection\<close>

lemmas deposit_defs =
  check_deposit_def newDeposits_def newAmount_def isNewDeposit_def awaiting_escrow_def
  deposit_tx_def toLowerCase_def toLowerCase_char_def hashRecorded_def

lemma hashStored_mono: "hashStored e h \<Longrightarrow> hashStored (recordHashes e txs) h"
proof (induction txs arbitrary: e)
  case Nil
  then show ?case by simp
next
  case (Cons a txs)
  show ?case
  proof (cases "tx_hash a = []")
    case True
    then show ?thesis using Cons by simp
  next
    case False
    note ne = this
    show ?thesis
    proof (cases "transactionHash e = []")
      case True
      have "hashStored (e\<lparr>transactionHash := tx_hash a,
                         depositTransactionFromAddress := tx_from a\<rparr>) h"
        using Cons.prems True by (auto simp: hashStored_def)
      then show ?thesis using Cons.IH ne True by simp
    next
      case False
      have "hashStored (e\<lparr>partialTransactionHashes := partialTransactionHashes e @ [tx_hash a]\<rparr>) h"
        using Cons.prems by (auto simp: hashStored_def)
      then show ?thesis using Cons.IH Cons.prems ne False by simp
    qed
  qed
qed

text \<open>Every hashed transfer that the loop walks over is on the document afterwards.\<close>

lemma recordHashes_records:
  "tx \<in> set txs \<Longrightarrow> tx_hash tx \<noteq> [] \<Longrightarrow> hashStored (recordHashes e txs) (tx_hash tx)"
proof (induction txs arbitrary: e)
  case Nil
  then show ?case by simp
next
  case (Cons a txs)
  show ?case
  proof (cases "a = tx")
    case True
    note eq = this
    show ?thesis
    proof (cases "transactionHash e = []")
      case True
      have "hashStored (e\<lparr>transactionHash := tx_hash tx,
                         depositTransactionFromAddress := tx_from tx\<rparr>) (tx_hash tx)"
        using Cons.prems(2) by (simp add: hashStored_def)
      then show ?thesis using hashStored_mono eq True Cons.prems(2) by simp
    next
      case False
      note set = this
      show ?thesis
      proof (cases "tx_hash tx \<notin> set (partialTransactionHashes e) \<and> transactionHash e \<noteq> tx_hash tx")
        case True
        have "hashStored (e\<lparr>partialTransactionHashes := partialTransactionHashes e @ [tx_hash tx]\<rparr>)
                (tx_hash tx)"
          by (simp add: hashStored_def)
        then show ?thesis using hashStored_mono eq set True Cons.prems(2) by simp
      next
        case False
        then have "hashStored e (tx_hash tx)" using Cons.prems(2) by (auto simp: hashStored_def)
        then have "hashStored (recordHashes e txs) (tx_hash tx)" by (rule hashStored_mono)
        moreover have "recordHashes e (a # txs) = recordHashes e txs"
          using eq set False Cons.prems(2) by auto
        ultimately show ?thesis by simp
      qed
    qed
  next
    case False
    then have "tx \<in> set txs" using Cons.prems by simp
    then have "\<And>e'. hashStored (recordHashes e' txs) (tx_hash tx)"
      using Cons.IH Cons.prems(2) by simp
    then show ?thesis by simp
  qed
qed

lemma hashStored_recorded: "hashStored e h \<Longrightarrow> hashRecorded e h"
  by (auto simp: hashStored_def hashRecorded_def list_ex_iff)

lemma hashRecorded_mono: "hashRecorded e h \<Longrightarrow> hashRecorded (recordHashes e txs) h"
proof (induction txs arbitrary: e)
  case Nil
  then show ?case by simp
next
  case (Cons a txs)
  show ?case
  proof (cases "tx_hash a = []")
    case True
    then show ?thesis using Cons by simp
  next
    case False
    note ne = this
    show ?thesis
    proof (cases "transactionHash e = []")
      case True
      have "hashRecorded (e\<lparr>transactionHash := tx_hash a,
                         depositTransactionFromAddress := tx_from a\<rparr>) h"
        using Cons.prems True by (auto simp: hashRecorded_def)
      then show ?thesis using Cons.IH ne True by simp
    next
      case False
      have "hashRecorded (e\<lparr>partialTransactionHashes := partialTransactionHashes e @ [tx_hash a]\<rparr>) h"
        using Cons.prems by (auto simp: hashRecorded_def)
      then show ?thesis using Cons.IH Cons.prems ne False by simp
    qed
  qed
qed

lemma recordHashes_keeps [simp]:
  "depositAddress (recordHashes e txs) = depositAddress e"
  "status (recordHashes e txs) = status e"
  "depositAmount (recordHashes e txs) = depositAmount e"
  by (induction txs arbitrary: e) simp_all

lemma toLowerCase_Nil [simp]: "toLowerCase s = [] \<longleftrightarrow> s = []"
  by (simp add: toLowerCase_def)

lemma hashRecorded_lower:
  "toLowerCase h' = toLowerCase h \<Longrightarrow> hashRecorded e h' = hashRecorded e h"
  by (simp add: hashRecorded_def)

lemma isNewDeposit_recorded:
  "tx_hash t \<noteq> [] \<Longrightarrow> hashRecorded e (tx_hash t) \<Longrightarrow> \<not> isNewDeposit e t"
  by (auto simp: isNewDeposit_def hashRecorded_def)

lemma isNewDeposit_iff:
  "toLowerCase (tx_to t) = toLowerCase (depositAddress e) \<Longrightarrow> tx_hash t \<noteq> [] \<Longrightarrow>
   isNewDeposit e t = (\<not> hashRecorded e (tx_hash t))"
  by (auto simp: isNewDeposit_def hashRecorded_def)

lemma newAmount_skip:
  "\<not> isNewDeposit e t \<Longrightarrow> newAmount e (pre @ t # post) = newAmount e (pre @ post)"
  by (simp add: newAmount_def newDeposits_def)

lemma newDeposits_none:
  "\<forall>t \<in> set txs. \<not> isNewDeposit e t \<Longrightarrow> newDeposits e txs = []"
  by (simp add: newDeposits_def)

lemma check_deposit_confirmed:
  assumes "fst (check_deposit rpc api l e) = DepositConfirmed"
  shows "status (snd (check_deposit rpc api l e)) = deposited"
    and "depositAddress (snd (check_deposit rpc api l e)) = depositAddress e"
    and "depositAddress e \<noteq> []"
    and "\<exists>e1. hashRecorded (snd (check_deposit rpc api l e)) = hashRecorded
            (recordHashes e1 (newDeposits e (if rpc = [] then api else rpc)))
          \<and> hashRecorded e1 = hashRecorded e"
proof -
  show "status (snd (check_deposit rpc api l e)) = deposited"
    using assms by (auto simp: check_deposit_def Let_def split: if_splits)
  show "depositAddress (snd (check_deposit rpc api l e)) = depositAddress e"
    using assms by (auto simp: check_deposit_def Let_def split: if_splits option.splits)
  show "depositAddress e \<noteq> []"
    using assms by (auto simp: check_deposit_def Let_def split: if_splits)
  let ?e1 = "case l of None \<Rightarrow> e | Some b \<Rightarrow> if b \<noteq> 0 then e\<lparr>lastCheckedBlock := b\<rparr> else e"
  have a: "hashRecorded ?e1 = hashRecorded e"
    by (auto simp: hashRecorded_def fun_eq_iff split: option.splits)
  have b: "hashRecorded (snd (check_deposit rpc api l e)) = hashRecorded
            (recordHashes ?e1 (newDeposits e (if rpc = [] then api else rpc)))"
    using assms by (auto simp: check_deposit_def Let_def hashRecorded_def fun_eq_iff split: if_splits)
  show "\<exists>e1. hashRecorded (snd (check_deposit rpc api l e)) = hashRecorded
            (recordHashes e1 (newDeposits e (if rpc = [] then api else rpc)))
          \<and> hashRecorded e1 = hashRecorded e"
    using a b by blast
qed

lemma check_deposit_records:
  assumes conf: "fst (check_deposit rpc api l e) = DepositConfirmed"
    and mem: "tx \<in> set (if rpc = [] then api else rpc)"
    and vault: "toLowerCase (tx_to tx) = toLowerCase (depositAddress e)"
    and hash: "tx_hash tx \<noteq> []"
  shows "hashRecorded (snd (check_deposit rpc api l e)) (tx_hash tx)"
proof -
  obtain e1 where r: "hashRecorded (snd (check_deposit rpc api l e)) = hashRecorded
            (recordHashes e1 (newDeposits e (if rpc = [] then api else rpc)))"
    and e1: "hashRecorded e1 = hashRecorded e"
    using check_deposit_confirmed(4) [OF conf] by blast
  show ?thesis
  proof (cases "isNewDeposit e tx")
    case True
    then have "tx \<in> set (newDeposits e (if rpc = [] then api else rpc))"
      using mem by (simp add: newDeposits_def)
    then show ?thesis
      unfolding r using recordHashes_records hash hashStored_recorded by blast
  next
    case False
    then have "hashRecorded e (tx_hash tx)"
      using isNewDeposit_iff [OF vault hash] by simp
    then have "hashRecorded e1 (tx_hash tx)" using e1 by simp
    then show ?thesis unfolding r by (rule hashRecorded_mono)
  qed
qed

lemma check_deposit_nothing_new:
  assumes "status e = awaiting_deposit \<or> status e = deposited" and "depositAddress e \<noteq> []"
    and "\<forall>t \<in> set (if rpc = [] then api else rpc). \<not> isNewDeposit e t"
  shows "check_deposit rpc api l e = (NoNewDeposit, e)"
  using assms newDeposits_none [of "if rpc = [] then api else rpc" e]
  by (auto simp: check_deposit_def Let_def newAmount_def)

lemma check_deposit_adds_new_amount:
  assumes "fst (check_deposit rpc api l e) = DepositConfirmed"
  shows "depositAmount (snd (check_deposit rpc api l e))
           = depositAmount e + newAmount e (if rpc = [] then api else rpc)"
    and "confirmedAmount (snd (check_deposit rpc api l e))
           = depositAmount e + newAmount e (if rpc = [] then api else rpc)"
  using assms by (auto simp: check_deposit_def Let_def split: if_splits)

text \<open>
  Claim C8 fails when one poll returns the same hash twice. On the escrow that awaits its
  deposit, with no hash stored, the poll returns the transfer \<open>0xA1\<close> of 400 two times.
  The filter of lines 1425-1451 compares with the hashes stored before the poll, so it
  keeps both entries; line 1453 sums them and the balance rises by 800, while the hash is
  stored once.
\<close>

theorem same_hash_in_one_poll_counts_twice:
  "transactionHash awaiting_escrow = [] \<and> partialTransactionHashes awaiting_escrow = []
   \<and> depositAmount awaiting_escrow = 0
   \<and> map tx_hash same_poll_twice = [''0xA1'', ''0xA1'']
   \<and> fst (check_deposit same_poll_twice [] (Some 5) awaiting_escrow) = DepositConfirmed
   \<and> depositAmount (snd (check_deposit same_poll_twice [] (Some 5) awaiting_escrow)) = 800
   \<and> confirmedAmount (snd (check_deposit same_poll_twice [] (Some 5) awaiting_escrow)) = 800
   \<and> transactionHash (snd (check_deposit same_poll_twice [] (Some 5) awaiting_escrow)) = ''0xA1''
   \<and> partialTransactionHashes (snd (check_deposit same_poll_twice [] (Some 5) awaiting_escrow))
       = []"
  by (simp add: deposit_defs eval_defs same_poll_twice_def)

text \<open>
  Claim C8, as the code has it by design: the defence is against a hash that is already
  stored. A press of \<^verbatim>\<open>check_deposit\<close> that confirms a deposit adds the new amount of its
  poll to the balance (\<open>depositAmount\<close> and \<open>confirmedAmount\<close>) once, and every hashed
  transfer to the vault that the poll returned is recorded on the saved document, as
  primary or as partial hash. From then on a transfer with that hash (in any letter case,
  with any amount) is not a new deposit: it adds nothing to the new amount of a later
  poll, and a later poll that returns only such transfers leaves the document, and so the
  balance, as the first poll left it. In general a transfer whose hash is recorded on the
  document adds nothing to the ledger.
\<close>

theorem duplicate_hash_counts_once:
  assumes conf: "fst (check_deposit rpc1 api1 l1 e) = DepositConfirmed"
    and mem: "tx \<in> set (if rpc1 = [] then api1 else rpc1)"
    and vault: "toLowerCase (tx_to tx) = toLowerCase (depositAddress e)"
    and hash: "tx_hash tx \<noteq> []"
    and same: "toLowerCase (tx_hash tx') = toLowerCase (tx_hash tx)"
    and rep: "\<forall>t \<in> set (if rpc2 = [] then api2 else rpc2).
                toLowerCase (tx_hash t) = toLowerCase (tx_hash tx)"
  shows "depositAmount (snd (check_deposit rpc1 api1 l1 e))
           = depositAmount e + newAmount e (if rpc1 = [] then api1 else rpc1)
       \<and> confirmedAmount (snd (check_deposit rpc1 api1 l1 e))
           = depositAmount e + newAmount e (if rpc1 = [] then api1 else rpc1)
       \<and> hashRecorded (snd (check_deposit rpc1 api1 l1 e)) (tx_hash tx)
       \<and> \<not> isNewDeposit (snd (check_deposit rpc1 api1 l1 e)) tx'
       \<and> newAmount (snd (check_deposit rpc1 api1 l1 e)) (pre @ tx' # post)
           = newAmount (snd (check_deposit rpc1 api1 l1 e)) (pre @ post)
       \<and> check_deposit rpc2 api2 l2 (snd (check_deposit rpc1 api1 l1 e))
           = (NoNewDeposit, snd (check_deposit rpc1 api1 l1 e))
       \<and> depositAmount (snd (check_deposit rpc2 api2 l2 (snd (check_deposit rpc1 api1 l1 e))))
           = depositAmount e + newAmount e (if rpc1 = [] then api1 else rpc1)
       \<and> (tx_hash t0 \<noteq> [] \<and> hashRecorded e0 (tx_hash t0) \<longrightarrow>
            newAmount e0 (pre @ t0 # post) = newAmount e0 (pre @ post))"
proof -
  let ?e1 = "snd (check_deposit rpc1 api1 l1 e)"
  have first: "depositAmount ?e1 = depositAmount e + newAmount e (if rpc1 = [] then api1 else rpc1)"
    "confirmedAmount ?e1 = depositAmount e + newAmount e (if rpc1 = [] then api1 else rpc1)"
    using check_deposit_adds_new_amount [OF conf] by simp_all
  have rec: "hashRecorded ?e1 (tx_hash tx)"
    by (rule check_deposit_records [OF conf mem vault hash])
  have known: "tx_hash t \<noteq> [] \<and> hashRecorded ?e1 (tx_hash t)"
    if "toLowerCase (tx_hash t) = toLowerCase (tx_hash tx)" for t :: transfer
  proof -
    have "toLowerCase (tx_hash t) \<noteq> []" using that hash by simp
    then have "tx_hash t \<noteq> []" by simp
    then show ?thesis using rec hashRecorded_lower [OF that] by simp
  qed
  have old: "\<not> isNewDeposit ?e1 t"
    if "toLowerCase (tx_hash t) = toLowerCase (tx_hash tx)" for t :: transfer
    using known [OF that] isNewDeposit_recorded by blast
  have none: "\<forall>t \<in> set (if rpc2 = [] then api2 else rpc2). \<not> isNewDeposit ?e1 t"
    using rep old by blast
  have st: "status ?e1 = awaiting_deposit \<or> status ?e1 = deposited"
    using check_deposit_confirmed(1) [OF conf] by simp
  have addr: "depositAddress ?e1 \<noteq> []"
    using check_deposit_confirmed(2,3) [OF conf] by simp
  have second: "check_deposit rpc2 api2 l2 ?e1 = (NoNewDeposit, ?e1)"
    by (rule check_deposit_nothing_new [OF st addr none])
  have after: "depositAmount (snd (check_deposit rpc2 api2 l2 ?e1))
           = depositAmount e + newAmount e (if rpc1 = [] then api1 else rpc1)"
    using second first(1) by simp
  have general: "tx_hash t0 \<noteq> [] \<and> hashRecorded e0 (tx_hash t0) \<longrightarrow>
            newAmount e0 (pre @ t0 # post) = newAmount e0 (pre @ post)"
    using isNewDeposit_recorded newAmount_skip by blast
  show ?thesis
    using first rec old [OF same] newAmount_skip [OF old [OF same]] second after general
    by blast
qed

theorem duplicate_hash_counts_once_witness:
  "depositAmount awaiting_escrow = 0
   \<and> depositAmount (snd (check_deposit [deposit_tx ''0xA1'' 400] [] (Some 5) awaiting_escrow)) = 400
   \<and> hashRecorded (snd (check_deposit [deposit_tx ''0xA1'' 400] [] (Some 5) awaiting_escrow)) ''0xA1''
   \<and> check_deposit [deposit_tx ''0xa1'' 999] [] (Some 9)
        (snd (check_deposit [deposit_tx ''0xA1'' 400] [] (Some 5) awaiting_escrow))
      = (NoNewDeposit, snd (check_deposit [deposit_tx ''0xA1'' 400] [] (Some 5) awaiting_escrow))
   \<and> depositAmount (snd (check_deposit [deposit_tx ''0xa1'' 999] [] (Some 9)
        (snd (check_deposit [deposit_tx ''0xA1'' 400] [] (Some 5) awaiting_escrow)))) = 400"
proof -
  have conf: "fst (check_deposit [deposit_tx ''0xA1'' 400] [] (Some 5) awaiting_escrow)
              = DepositConfirmed"
    by (simp add: deposit_defs eval_defs)
  have mem: "deposit_tx ''0xA1'' 400
             \<in> set (if [deposit_tx ''0xA1'' 400] = [] then [] else [deposit_tx ''0xA1'' 400])"
    by simp
  have vault: "toLowerCase (tx_to (deposit_tx ''0xA1'' 400))
               = toLowerCase (depositAddress awaiting_escrow)"
    by (simp add: deposit_defs eval_defs)
  have hash: "tx_hash (deposit_tx ''0xA1'' 400) \<noteq> []"
    by (simp add: deposit_tx_def)
  have same: "toLowerCase (tx_hash (deposit_tx ''0xa1'' 999))
              = toLowerCase (tx_hash (deposit_tx ''0xA1'' 400))"
    by (simp add: deposit_defs)
  have rep: "\<forall>t \<in> set (if [deposit_tx ''0xa1'' 999] = [] then [] else [deposit_tx ''0xa1'' 999]).
                toLowerCase (tx_hash t) = toLowerCase (tx_hash (deposit_tx ''0xA1'' 400))"
    by (simp add: deposit_defs)
  have new: "newAmount awaiting_escrow [deposit_tx ''0xA1'' 400] = 400"
    by (simp add: deposit_defs eval_defs)
  have zero: "depositAmount awaiting_escrow = 0"
    by (simp add: awaiting_escrow_def)
  show ?thesis
    using duplicate_hash_counts_once [OF conf mem vault hash same rep, where ?l2.0 = "Some 9"]
      new zero
    by (simp add: deposit_tx_def)
qed

text \<open>
  Claim C7, evaluated on the code. The escrow awaits a deposit of the agreed quantity 1000;
  the poll returns one transfer of 400 to the vault. The branch sets the status to
  \<open>deposited\<close>: line 1489 runs whenever the new amount is positive, and the agreed
  quantity is not read. \<open>depositAmount\<close> and \<open>confirmedAmount\<close> become 400 and the hash
  is recorded; \<open>accumulatedDepositAmount\<close> is not written.
\<close>

theorem check_deposit_partial_marks_deposited:
  "fst (check_deposit [deposit_tx ''0xA1'' 400] [] (Some 5) awaiting_escrow) = DepositConfirmed
   \<and> status awaiting_escrow = awaiting_deposit
   \<and> quantity awaiting_escrow = 1000
   \<and> status (snd (check_deposit [deposit_tx ''0xA1'' 400] [] (Some 5) awaiting_escrow)) = deposited
   \<and> depositAmount (snd (check_deposit [deposit_tx ''0xA1'' 400] [] (Some 5) awaiting_escrow)) = 400
   \<and> confirmedAmount (snd (check_deposit [deposit_tx ''0xA1'' 400] [] (Some 5) awaiting_escrow)) = 400
   \<and> accumulatedDepositAmount
       (snd (check_deposit [deposit_tx ''0xA1'' 400] [] (Some 5) awaiting_escrow)) = 0
   \<and> transactionHash (snd (check_deposit [deposit_tx ''0xA1'' 400] [] (Some 5) awaiting_escrow))
       = ''0xA1''"
  by (simp add: deposit_defs eval_defs)

text \<open>A poll is confirmed, and the status set to \<open>deposited\<close>, exactly when the new
  amount is positive; the agreed quantity plays no part.\<close>

lemma check_deposit_confirms_any_amount:
  "fst (check_deposit rpc api l e) = DepositConfirmed \<longleftrightarrow>
     ((status e = awaiting_deposit \<or> status e = deposited) \<and> depositAddress e \<noteq> []
      \<and> newAmount e (if rpc = [] then api else rpc) > 0)"
  by (auto simp: check_deposit_def Let_def)

text \<open>The manual verification branch, for contrast, compares the accumulated amount with
  the agreed quantity less a tolerance of 0.01 (line 4620): 400 of 1000 leaves the status
  at \<open>awaiting_deposit\<close>.\<close>

lemma tron_verify_partial_keeps_awaiting:
  "status (snd (tron_verify_received_confirm (admin_click 0)
      (awaiting_escrow\<lparr>tronPendingTxHash := ''0xA1'', tronPendingAmount := 400\<rparr>)))
     = awaiting_deposit
   \<and> accumulatedDepositAmount (snd (tron_verify_received_confirm (admin_click 0)
      (awaiting_escrow\<lparr>tronPendingTxHash := ''0xA1'', tronPendingAmount := 400\<rparr>))) = 400"
  by (simp add: tron_verify_received_confirm_def eval_defs awaiting_escrow_def)

subsection \<open>Gates and amount checks of the settlement branches\<close>

text \<open>When the release-by-consent branch calls \<^verbatim>\<open>releaseFunds\<close>, and with what.\<close>

lemma release_calls_iff:
  "snd (snd (release_confirm_yes rf d c e)) \<noteq> [] \<longleftrightarrow>
     (eligible (status e)
      \<and> \<not> stale_prompt (releaseConfirmationMessageId e) (callbackMessageId c)
      \<and> (buyerId e = userId c \<or> sellerId e = userId c \<or> isAdmin c)
      \<and> canExecute (recordReleaseApproval c e)
      \<and> releaseTransactionHash e = []
      \<and> buyerAddress e \<noteq> [] \<and> 0 < totalDeposited e
      \<and> 0 < requestedRelease d e \<and> requestedRelease d e \<le> formattedTotalDeposited d e
      \<and> 0 < actualAmountToUser e (requestedRelease d e))"
  using eligible_not_terminal [of "status e"]
  by (auto simp: release_confirm_yes_def Let_def split: transfer_result.splits)

lemma release_calls_shape:
  "snd (snd (release_confirm_yes rf d c e)) = []
   \<or> snd (snd (release_confirm_yes rf d c e))
      = [(requestedRelease d e - requestedRelease d e * feeRate e / 100 - networkFee e, None)]"
  by (auto simp: release_confirm_yes_def Let_def actualAmountToUser_def
      split: transfer_result.splits)

lemma release_outcomes:
  assumes "eligible (status e)"
    and "\<not> stale_prompt (releaseConfirmationMessageId e) (callbackMessageId c)"
    and "buyerId e = userId c \<or> sellerId e = userId c \<or> isAdmin c"
    and "canExecute (recordReleaseApproval c e)"
    and "releaseTransactionHash e = []"
    and "buyerAddress e \<noteq> []" and "0 < totalDeposited e"
  shows "release_confirm_yes rf d c e =
     (if requestedRelease d e > formattedTotalDeposited d e
        then (ExceedsBalance, recordReleaseApproval c e, [])
      else if requestedRelease d e \<le> 0 then (NonPositiveAmount, recordReleaseApproval c e, [])
      else if actualAmountToUser e (requestedRelease d e) \<le> 0
        then (NetAmountTooSmall, recordReleaseApproval c e, [])
      else (fst (release_confirm_yes rf d c e), fst (snd (release_confirm_yes rf d c e)),
            [(actualAmountToUser e (requestedRelease d e), None)]))"
  using assms eligible_not_terminal [of "status e"]
  by (auto simp: release_confirm_yes_def Let_def split: transfer_result.splits)

lemma release_gate:
  assumes "eligible (status e)"
    and "\<not> stale_prompt (releaseConfirmationMessageId e) (callbackMessageId c)"
    and "buyerId e = userId c \<or> sellerId e = userId c \<or> isAdmin c"
  shows "fst (release_confirm_yes rf d c e) = ApprovalRecorded \<longleftrightarrow> \<not> canExecute (recordReleaseApproval c e)"
  using assms eligible_not_terminal [of "status e"]
  by (auto simp: release_confirm_yes_def Let_def split: transfer_result.splits)

lemma release_guard_settled:
  "releaseTransactionHash e \<noteq> [] \<or> terminal (status e) \<Longrightarrow>
   snd (snd (release_confirm_yes rf d c e)) = []"
  using release_calls_iff [of rf d c e] eligible_not_terminal [of "status e"] by auto

text \<open>When the refund branch calls \<^verbatim>\<open>refundFunds\<close>, and with what.\<close>

lemma refund_calls_iff:
  "snd (snd (refund_confirm_yes rf ok d c e)) \<noteq> [] \<longleftrightarrow>
     (\<not> stale_prompt (refundConfirmationMessageId e) (callbackMessageId c)
      \<and> (buyerId e = userId c \<or> sellerId e = userId c \<or> isAdmin c)
      \<and> buyerConfirmedRefund (recordRefundApproval c e)
      \<and> sellerConfirmedRefund (recordRefundApproval c e)
      \<and> 0 < refundAmount (recordRefundApproval c e))"
  by (auto simp: refund_confirm_yes_def Let_def split: transfer_result.splits)

lemma refund_calls_shape:
  "snd (snd (refund_confirm_yes rf ok d c e)) = []
   \<or> snd (snd (refund_confirm_yes rf ok d c e))
      = [(refundAmountToContract d (recordRefundApproval c e), None)]"
  by (auto simp: refund_confirm_yes_def Let_def split: transfer_result.splits)

lemma refund_outcomes:
  assumes "\<not> stale_prompt (refundConfirmationMessageId e) (callbackMessageId c)"
    and "buyerId e = userId c \<or> sellerId e = userId c \<or> isAdmin c"
    and "buyerConfirmedRefund (recordRefundApproval c e)"
    and "sellerConfirmedRefund (recordRefundApproval c e)"
  shows "refund_confirm_yes rf ok d c e =
     (if refundAmount (recordRefundApproval c e) \<le> 0
        then (InvalidAmount, recordRefundApproval c e, [])
      else (fst (refund_confirm_yes rf ok d c e), fst (snd (refund_confirm_yes rf ok d c e)),
            [(refundAmountToContract d (recordRefundApproval c e), None)]))"
  using assms
  by (auto simp: refund_confirm_yes_def Let_def split: transfer_result.splits)

lemma refundAmount_clamped:
  "refundAmount u \<le> refundTotalDeposited u"
  "pendingRefundAmount u = Some p \<Longrightarrow> refundTotalDeposited u < p \<Longrightarrow> 0 < refundTotalDeposited u
     \<Longrightarrow> refundAmount u = refundTotalDeposited u"
  by (auto simp: refundAmount_def Let_def split: option.splits)

lemma admin_calls_admin:
  "snd (snd (admin_release_confirm_yes rf d c e)) \<noteq> [] \<Longrightarrow> isAdmin c"
  by (auto simp: admin_release_confirm_yes_def Let_def split: if_splits transfer_result.splits)

lemma single_party_release:
  assumes "\<not> isAdmin c" and "buyerId e \<noteq> sellerId e"
    and "\<not> adminConfirmedRelease e"
    and "userId c = buyerId e \<and> \<not> sellerConfirmedRelease e
         \<or> userId c = sellerId e \<and> \<not> buyerConfirmedRelease e"
  shows "\<not> canExecute (recordReleaseApproval c e)"
  using assms by (auto simp: canExecute_def recordReleaseApproval_def Let_def)

lemma single_party_refund:
  assumes "\<not> isAdmin c" and "buyerId e \<noteq> sellerId e"
    and "userId c = buyerId e \<and> \<not> sellerConfirmedRefund e
         \<or> userId c = sellerId e \<and> \<not> buyerConfirmedRefund e"
  shows "\<not> (buyerConfirmedRefund (recordRefundApproval c e)
            \<and> sellerConfirmedRefund (recordRefundApproval c e))"
  using assms by (auto simp: recordRefundApproval_def Let_def)

subsection \<open>Amount checks before a transfer\<close>

lemma release_settled_calls:
  "fst (release_confirm_yes rf d c e) = Settled \<Longrightarrow> snd (snd (release_confirm_yes rf d c e)) \<noteq> []"
  by (auto simp: release_confirm_yes_def Let_def split: if_splits transfer_result.splits)

text \<open>
  Claim C1 fails in the refund branch. With a refund of 1200 requested against a balance
  of 1000 and both parties confirmed, the branch does not reject: line 3127 takes the
  smaller of the two amounts, and \<^verbatim>\<open>refundFunds\<close> is called with \<open>1000 - 0.3\<close>.
\<close>

theorem refund_clamps_instead_of_rejecting:
  "pendingRefundAmount (refund_request 1200) = Some 1200
   \<and> accumulatedDepositAmount (refund_request 1200) = 1000
   \<and> fst (refund_confirm_yes chain_ok True 18 (buyer_click 8) (refund_request 1200)) = Settled
   \<and> snd (snd (refund_confirm_yes chain_ok True 18 (buyer_click 8) (refund_request 1200)))
       = [(9997 / 10, None)]"
  by (simp add: eval_defs refund_defs)

text \<open>
  Claim C1, as the code has it by design. In the release-by-consent branch a requested
  amount (the pending partial amount, else the whole balance) that exceeds the balance or
  is not positive never leads to a call of \<^verbatim>\<open>releaseFunds\<close> nor to a settlement, and
  once the guards before the amount checks have passed the branch ends with the signal
  \<open>ExceedsBalance\<close>, respectively \<open>NonPositiveAmount\<close>, with no call made. In the refund
  branch the refunded amount is the smaller of the requested amount and the balance, so
  it never exceeds the balance; a refunded amount that is not positive leads to no call
  of \<^verbatim>\<open>refundFunds\<close> and, past the guards, to the signal \<open>InvalidAmount\<close>; a request
  above a positive balance is refunded at the balance.
\<close>

theorem amount_checks_by_branch:
  "(requestedRelease d e > formattedTotalDeposited d e \<or> requestedRelease d e \<le> 0 \<longrightarrow>
      snd (snd (release_confirm_yes rf d c e)) = []
      \<and> fst (release_confirm_yes rf d c e) \<noteq> Settled)
   \<and> (eligible (status e)
       \<and> \<not> stale_prompt (releaseConfirmationMessageId e) (callbackMessageId c)
       \<and> (buyerId e = userId c \<or> sellerId e = userId c \<or> isAdmin c)
       \<and> canExecute (recordReleaseApproval c e)
       \<and> releaseTransactionHash e = [] \<and> buyerAddress e \<noteq> [] \<and> 0 < totalDeposited e \<longrightarrow>
         (requestedRelease d e > formattedTotalDeposited d e \<longrightarrow>
            release_confirm_yes rf d c e = (ExceedsBalance, recordReleaseApproval c e, []))
         \<and> (requestedRelease d e \<le> formattedTotalDeposited d e \<and> requestedRelease d e \<le> 0 \<longrightarrow>
            release_confirm_yes rf d c e = (NonPositiveAmount, recordReleaseApproval c e, [])))
   \<and> refundAmount (recordRefundApproval c e) \<le> refundTotalDeposited e
   \<and> (refundAmount (recordRefundApproval c e) \<le> 0 \<longrightarrow>
         snd (snd (refund_confirm_yes rf ok d c e)) = [])
   \<and> (\<not> stale_prompt (refundConfirmationMessageId e) (callbackMessageId c)
       \<and> (buyerId e = userId c \<or> sellerId e = userId c \<or> isAdmin c)
       \<and> buyerConfirmedRefund (recordRefundApproval c e)
       \<and> sellerConfirmedRefund (recordRefundApproval c e) \<longrightarrow>
         (refundAmount (recordRefundApproval c e) \<le> 0 \<longrightarrow>
            refund_confirm_yes rf ok d c e = (InvalidAmount, recordRefundApproval c e, []))
         \<and> (pendingRefundAmount e = Some p \<and> refundTotalDeposited e < p
             \<and> 0 < refundTotalDeposited e \<longrightarrow>
            refundAmount (recordRefundApproval c e) = refundTotalDeposited e
            \<and> snd (snd (refund_confirm_yes rf ok d c e))
                = [(refundAmountToContract d (recordRefundApproval c e), None)]))"
proof -
  let ?u = "recordReleaseApproval c e"
  let ?v = "recordRefundApproval c e"
  have rel_none: "requestedRelease d e > formattedTotalDeposited d e \<or> requestedRelease d e \<le> 0 \<longrightarrow>
      snd (snd (release_confirm_yes rf d c e)) = []
      \<and> fst (release_confirm_yes rf d c e) \<noteq> Settled"
    using release_calls_iff [of rf d c e] release_settled_calls [of rf d c e] by auto
  have rel_sig: "eligible (status e)
       \<and> \<not> stale_prompt (releaseConfirmationMessageId e) (callbackMessageId c)
       \<and> (buyerId e = userId c \<or> sellerId e = userId c \<or> isAdmin c)
       \<and> canExecute ?u
       \<and> releaseTransactionHash e = [] \<and> buyerAddress e \<noteq> [] \<and> 0 < totalDeposited e \<longrightarrow>
         (requestedRelease d e > formattedTotalDeposited d e \<longrightarrow>
            release_confirm_yes rf d c e = (ExceedsBalance, ?u, []))
         \<and> (requestedRelease d e \<le> formattedTotalDeposited d e \<and> requestedRelease d e \<le> 0 \<longrightarrow>
            release_confirm_yes rf d c e = (NonPositiveAmount, ?u, []))"
    using release_outcomes [of e c rf d] by auto
  have clamp: "refundAmount ?v \<le> refundTotalDeposited e"
    using refundAmount_clamped(1) [of ?v] by simp
  have ref_none: "refundAmount ?v \<le> 0 \<longrightarrow> snd (snd (refund_confirm_yes rf ok d c e)) = []"
    using refund_calls_iff [of rf ok d c e] by auto
  have ref_sig: "\<not> stale_prompt (refundConfirmationMessageId e) (callbackMessageId c)
       \<and> (buyerId e = userId c \<or> sellerId e = userId c \<or> isAdmin c)
       \<and> buyerConfirmedRefund ?v \<and> sellerConfirmedRefund ?v \<longrightarrow>
         (refundAmount ?v \<le> 0 \<longrightarrow> refund_confirm_yes rf ok d c e = (InvalidAmount, ?v, []))
         \<and> (pendingRefundAmount e = Some p \<and> refundTotalDeposited e < p
             \<and> 0 < refundTotalDeposited e \<longrightarrow>
            refundAmount ?v = refundTotalDeposited e
            \<and> snd (snd (refund_confirm_yes rf ok d c e)) = [(refundAmountToContract d ?v, None)])"
  proof (intro impI conjI)
    assume g: "\<not> stale_prompt (refundConfirmationMessageId e) (callbackMessageId c)
       \<and> (buyerId e = userId c \<or> sellerId e = userId c \<or> isAdmin c)
       \<and> buyerConfirmedRefund ?v \<and> sellerConfirmedRefund ?v"
    then have run: "refund_confirm_yes rf ok d c e =
     (if refundAmount ?v \<le> 0 then (InvalidAmount, ?v, [])
      else (fst (refund_confirm_yes rf ok d c e), fst (snd (refund_confirm_yes rf ok d c e)),
            [(refundAmountToContract d ?v, None)]))"
      using refund_outcomes [of e c rf ok d] by blast
    { assume "refundAmount ?v \<le> 0"
      then show "refund_confirm_yes rf ok d c e = (InvalidAmount, ?v, [])"
        using run by simp }
    { assume h: "pendingRefundAmount e = Some p \<and> refundTotalDeposited e < p
             \<and> 0 < refundTotalDeposited e"
      then show eq: "refundAmount ?v = refundTotalDeposited e"
        using refundAmount_clamped(2) [of ?v p] by simp
      then have "\<not> refundAmount ?v \<le> 0" using h by simp
      then have "snd (snd (refund_confirm_yes rf ok d c e))
          = snd (snd (fst (refund_confirm_yes rf ok d c e), fst (snd (refund_confirm_yes rf ok d c e)),
            [(refundAmountToContract d ?v, None :: int option)]))"
        using run by (metis (no_types, lifting))
      then show "snd (snd (refund_confirm_yes rf ok d c e)) = [(refundAmountToContract d ?v, None)]"
        by simp }
  qed
  show ?thesis using rel_none rel_sig clamp ref_none ref_sig by blast
qed

theorem amount_checks_by_branch_witness:
  "release_confirm_yes chain_ok 18 (buyer_click 7)
       (seller_approved\<lparr>pendingReleaseAmount := Some 1200\<rparr>)
     = (ExceedsBalance,
        recordReleaseApproval (buyer_click 7) (seller_approved\<lparr>pendingReleaseAmount := Some 1200\<rparr>),
        [])
   \<and> refundAmount (recordRefundApproval (buyer_click 7)
        (seller_approved\<lparr>pendingReleaseAmount := Some 1200\<rparr>)) \<le> 1000"
  using amount_checks_by_branch [of 18 "seller_approved\<lparr>pendingReleaseAmount := Some 1200\<rparr>"
      chain_ok "buyer_click 7" True 0]
  by (simp add: eval_defs requestedRelease_def canExecute_def recordReleaseApproval_def
      refundTotalDeposited_def)

text \<open>The admin release branch is left out of the statement above. There the first call
  of \<^verbatim>\<open>releaseFunds\<close> (line 2019) stands before the checks of lines 2029-2043: with 1200
  requested against 1000 the net amount 1193.7 is handed to the transfer collaborator, and
  only then is the request rejected.\<close>

lemma admin_release_transfers_before_balance_check:
  "admin_release_confirm_yes chain_ok 18 (admin_click 7) (scenario\<lparr>pendingReleaseAmount := Some 1200\<rparr>)
   = (ExceedsBalance, scenario\<lparr>pendingReleaseAmount := Some 1200, adminConfirmedRelease := True\<rparr>,
      [(11937 / 10, None)])"
  by (simp add: eval_defs admin_defs)

subsection \<open>Settlement after a recorded hash\<close>

text \<open>
  Claim C2, evaluated on the code. A partial refund of 400 of 1000 is confirmed by both
  parties. The first press of the refund button transfers \<open>400 - 0.3\<close>, records the refund
  hash and leaves 600 on the ledger, both consent flags still set. A second press of the
  same button is not rejected: the refund branch looks neither at the status nor at the
  recorded hash, and \<^verbatim>\<open>refundFunds\<close> is called again, with \<open>600 - 0.3\<close>.
\<close>

theorem refund_repeats_after_recorded_hash:
  "fst (refund_confirm_yes chain_ok True 18 (buyer_click 8) (refund_request 400)) = Settled
   \<and> snd (snd (refund_confirm_yes chain_ok True 18 (buyer_click 8) (refund_request 400)))
       = [(3997 / 10, None)]
   \<and> refundTransactionHash
       (fst (snd (refund_confirm_yes chain_ok True 18 (buyer_click 8) (refund_request 400))))
       = ''0xt''
   \<and> fst (refund_confirm_yes chain_ok True 18 (buyer_click 8)
        (fst (snd (refund_confirm_yes chain_ok True 18 (buyer_click 8) (refund_request 400)))))
       = Settled
   \<and> snd (snd (refund_confirm_yes chain_ok True 18 (buyer_click 8)
        (fst (snd (refund_confirm_yes chain_ok True 18 (buyer_click 8) (refund_request 400))))))
       = [(5997 / 10, None)]"
  by (simp add: eval_defs refund_defs)

text \<open>The release-by-consent branch has the guard (lines 2522-2531): with a release hash
  recorded or a terminal status it never calls \<^verbatim>\<open>releaseFunds\<close>.\<close>

lemma release_never_repeats:
  "releaseTransactionHash e \<noteq> [] \<or> terminal (status e) \<Longrightarrow>
   snd (snd (release_confirm_yes rf d c e)) = []"
  by (rule release_guard_settled)

subsection \<open>The net amount of a release\<close>

text \<open>
  Claim C3, evaluated on the code. An admin confirms the release of the scenario escrow
  (1000 deposited, fee rate 0.5 percent, network fee 0.3, no pending amount). The canonical
  net amount is \<open>994.7\<close>. The admin branch calls \<^verbatim>\<open>releaseFunds\<close> twice: first with
  \<open>994.4\<close>, the canonical formula applied to the grossed-up release amount
  \<open>994.7 / 0.995\<close>, then with that release amount less the network fee, \<open>1988803 / 1990\<close>
  (about 999.4); the trade stays \<open>deposited\<close> with \<open>60 / 199\<close> left on the ledger.
\<close>

theorem admin_release_not_canonical:
  "actualAmountToUser scenario 1000 = 9947 / 10
   \<and> fst (admin_release_confirm_yes chain_ok 18 (admin_click 7) scenario) = Settled
   \<and> snd (snd (admin_release_confirm_yes chain_ok 18 (admin_click 7) scenario))
       = [(4972 / 5, None), (1988803 / 1990, Some 999698492462311557789)]
   \<and> status (fst (snd (admin_release_confirm_yes chain_ok 18 (admin_click 7) scenario))) = deposited
   \<and> accumulatedDepositAmount
       (fst (snd (admin_release_confirm_yes chain_ok 18 (admin_click 7) scenario))) = 60 / 199"
  by (simp add: eval_defs admin_defs actualAmountToUser_def)

text \<open>The release-by-consent branch makes at most one call, with the canonical net
  amount of the requested gross amount, and ends with \<open>NetAmountTooSmall\<close> when that
  amount is not positive.\<close>

lemma release_net_canonical:
  "(snd (snd (release_confirm_yes rf d c e)) = []
    \<or> snd (snd (release_confirm_yes rf d c e))
       = [(requestedRelease d e - requestedRelease d e * feeRate e / 100 - networkFee e, None)])
   \<and> (fst (release_confirm_yes rf d c e) = NetAmountTooSmall \<longrightarrow>
        requestedRelease d e - requestedRelease d e * feeRate e / 100 - networkFee e \<le> 0)"
  using release_calls_shape [of rf d c e]
  by (auto simp: release_confirm_yes_def Let_def actualAmountToUser_def
      split: if_splits transfer_result.splits)

subsection \<open>The consent quorum\<close>

text \<open>
  Claim C4 fails on the branch \<^verbatim>\<open>fiat_release_confirm_\<close>. On the scenario escrow, with no
  consent flag set, the seller alone (not an admin) confirms the release after reporting
  the fiat payment as received: \<^verbatim>\<open>releaseFunds\<close> is called with \<open>1000 - 0.3\<close> and the trade
  is settled.
\<close>

theorem seller_alone_releases_after_fiat:
  "\<not> buyerConfirmedRelease scenario \<and> \<not> sellerConfirmedRelease scenario
   \<and> \<not> adminConfirmedRelease scenario \<and> \<not> isAdmin (seller_click 7)
   \<and> fst (fiat_release_confirm chain_ok 18 (seller_click 7) scenario) = Settled
   \<and> snd (snd (fiat_release_confirm chain_ok 18 (seller_click 7) scenario)) = [(9997 / 10, None)]"
  by (simp add: eval_defs fiat_release_confirm_def)

text \<open>When the branch \<^verbatim>\<open>fiat_release_confirm_\<close> calls \<^verbatim>\<open>releaseFunds\<close>: no consent flag
  is among the conditions.\<close>

lemma fiat_calls_iff:
  "snd (snd (fiat_release_confirm rf d c e)) \<noteq> [] \<longleftrightarrow>
     (eligible (status e) \<and> sellerId e = userId c \<and> buyerAddress e \<noteq> []
      \<and> 0 < formattedTotalDeposited d e)"
  by (auto simp: fiat_release_confirm_def Let_def split: transfer_result.splits)

text \<open>
  Claim C4, as the code has it by design.
  \<^item> In the three consent branches a call of the transfer collaborator implies the quorum
    of the press: in \<^verbatim>\<open>release_confirm_yes_\<close> the admin flag or both party release flags
    in the document saved by the press, in \<^verbatim>\<open>refund_confirm_yes_\<close> both party refund flags
    in that document (an admin press sets both), in \<^verbatim>\<open>admin_release_confirm_yes_\<close> a press
    by an admin.
  \<^item> In \<^verbatim>\<open>release_confirm_yes_\<close>, once the entry guards have passed, the branch answers
    "approval recorded" exactly when the quorum is missing, and \<^verbatim>\<open>releaseFunds\<close> is called
    if and only if the quorum holds and the guards of this branch pass: eligible status,
    live prompt, press by buyer, seller or admin, no release hash recorded, buyer address
    present, positive deposited total, requested amount positive and within the balance,
    positive net amount.
  \<^item> In \<^verbatim>\<open>refund_confirm_yes_\<close>, \<^verbatim>\<open>refundFunds\<close> is called if and only if the quorum holds
    and the guards of this branch pass: live prompt, press by buyer, seller or admin,
    positive refund amount.
  \<^item> The press of one party who is not an admin, the other party and the admin not
    having confirmed, calls no transfer in any of the three branches.
  \<^item> The branch \<^verbatim>\<open>fiat_release_confirm_\<close> stands outside the quorum: \<^verbatim>\<open>releaseFunds\<close> is
    called if and only if the status is eligible, the press is the seller's, the buyer
    address is present and the balance is positive.
\<close>

theorem transfer_needs_quorum:
  "(snd (snd (release_confirm_yes rf d c e)) \<noteq> [] \<longrightarrow> canExecute (recordReleaseApproval c e))
   \<and> (snd (snd (refund_confirm_yes rf ok d c e)) \<noteq> [] \<longrightarrow>
        buyerConfirmedRefund (recordRefundApproval c e)
        \<and> sellerConfirmedRefund (recordRefundApproval c e))
   \<and> (snd (snd (admin_release_confirm_yes rf d c e)) \<noteq> [] \<longrightarrow> isAdmin c)
   \<and> (eligible (status e)
       \<and> \<not> stale_prompt (releaseConfirmationMessageId e) (callbackMessageId c)
       \<and> (buyerId e = userId c \<or> sellerId e = userId c \<or> isAdmin c) \<longrightarrow>
        (fst (release_confirm_yes rf d c e) = ApprovalRecorded
         \<longleftrightarrow> \<not> canExecute (recordReleaseApproval c e)))
   \<and> (snd (snd (release_confirm_yes rf d c e)) \<noteq> [] \<longleftrightarrow>
        (eligible (status e)
         \<and> \<not> stale_prompt (releaseConfirmationMessageId e) (callbackMessageId c)
         \<and> (buyerId e = userId c \<or> sellerId e = userId c \<or> isAdmin c)
         \<and> canExecute (recordReleaseApproval c e)
         \<and> releaseTransactionHash e = []
         \<and> buyerAddress e \<noteq> [] \<and> 0 < totalDeposited e
         \<and> 0 < requestedRelease d e \<and> requestedRelease d e \<le> formattedTotalDeposited d e
         \<and> 0 < actualAmountToUser e (requestedRelease d e)))
   \<and> (snd (snd (refund_confirm_yes rf ok d c e)) \<noteq> [] \<longleftrightarrow>
        (\<not> stale_prompt (refundConfirmationMessageId e) (callbackMessageId c)
         \<and> (buyerId e = userId c \<or> sellerId e = userId c \<or> isAdmin c)
         \<and> buyerConfirmedRefund (recordRefundApproval c e)
         \<and> sellerConfirmedRefund (recordRefundApproval c e)
         \<and> 0 < refundAmount (recordRefundApproval c e)))
   \<and> (\<not> isAdmin c \<and> buyerId e \<noteq> sellerId e \<and> \<not> adminConfirmedRelease e
       \<and> (userId c = buyerId e \<and> \<not> sellerConfirmedRelease e
           \<or> userId c = sellerId e \<and> \<not> buyerConfirmedRelease e) \<longrightarrow>
        snd (snd (release_confirm_yes rf d c e)) = [])
   \<and> (\<not> isAdmin c \<and> buyerId e \<noteq> sellerId e
       \<and> (userId c = buyerId e \<and> \<not> sellerConfirmedRefund e
           \<or> userId c = sellerId e \<and> \<not> buyerConfirmedRefund e) \<longrightarrow>
        snd (snd (refund_confirm_yes rf ok d c e)) = [])
   \<and> (\<not> isAdmin c \<longrightarrow> snd (snd (admin_release_confirm_yes rf d c e)) = [])
   \<and> (snd (snd (fiat_release_confirm rf d c e)) \<noteq> [] \<longleftrightarrow>
        (eligible (status e) \<and> sellerId e = userId c \<and> buyerAddress e \<noteq> []
         \<and> 0 < formattedTotalDeposited d e))"
proof -
  have rel: "snd (snd (release_confirm_yes rf d c e)) \<noteq> [] \<longleftrightarrow>
        (eligible (status e)
         \<and> \<not> stale_prompt (releaseConfirmationMessageId e) (callbackMessageId c)
         \<and> (buyerId e = userId c \<or> sellerId e = userId c \<or> isAdmin c)
         \<and> canExecute (recordReleaseApproval c e)
         \<and> releaseTransactionHash e = []
         \<and> buyerAddress e \<noteq> [] \<and> 0 < totalDeposited e
         \<and> 0 < requestedRelease d e \<and> requestedRelease d e \<le> formattedTotalDeposited d e
         \<and> 0 < actualAmountToUser e (requestedRelease d e))"
    by (rule release_calls_iff)
  have ref: "snd (snd (refund_confirm_yes rf ok d c e)) \<noteq> [] \<longleftrightarrow>
        (\<not> stale_prompt (refundConfirmationMessageId e) (callbackMessageId c)
         \<and> (buyerId e = userId c \<or> sellerId e = userId c \<or> isAdmin c)
         \<and> buyerConfirmedRefund (recordRefundApproval c e)
         \<and> sellerConfirmedRefund (recordRefundApproval c e)
         \<and> 0 < refundAmount (recordRefundApproval c e))"
    by (rule refund_calls_iff)
  have adm: "snd (snd (admin_release_confirm_yes rf d c e)) \<noteq> [] \<longrightarrow> isAdmin c"
    using admin_calls_admin by blast
  have fiat: "snd (snd (fiat_release_confirm rf d c e)) \<noteq> [] \<longleftrightarrow>
        (eligible (status e) \<and> sellerId e = userId c \<and> buyerAddress e \<noteq> []
         \<and> 0 < formattedTotalDeposited d e)"
    by (rule fiat_calls_iff)
  have gate: "eligible (status e)
       \<and> \<not> stale_prompt (releaseConfirmationMessageId e) (callbackMessageId c)
       \<and> (buyerId e = userId c \<or> sellerId e = userId c \<or> isAdmin c) \<longrightarrow>
        (fst (release_confirm_yes rf d c e) = ApprovalRecorded
         \<longleftrightarrow> \<not> canExecute (recordReleaseApproval c e))"
    using release_gate [of e c rf d] by blast
  have one_rel: "\<not> isAdmin c \<and> buyerId e \<noteq> sellerId e \<and> \<not> adminConfirmedRelease e
       \<and> (userId c = buyerId e \<and> \<not> sellerConfirmedRelease e
           \<or> userId c = sellerId e \<and> \<not> buyerConfirmedRelease e) \<longrightarrow>
        snd (snd (release_confirm_yes rf d c e)) = []"
    using single_party_release [of c e] rel by blast
  have one_ref: "\<not> isAdmin c \<and> buyerId e \<noteq> sellerId e
       \<and> (userId c = buyerId e \<and> \<not> sellerConfirmedRefund e
           \<or> userId c = sellerId e \<and> \<not> buyerConfirmedRefund e) \<longrightarrow>
        snd (snd (refund_confirm_yes rf ok d c e)) = []"
    using single_party_refund [of c e] ref by blast
  have one_adm: "\<not> isAdmin c \<longrightarrow> snd (snd (admin_release_confirm_yes rf d c e)) = []"
    using adm by blast
  show ?thesis
    using rel ref adm gate one_rel one_ref one_adm fiat by blast
qed

text \<open>On the scenario: the buyer alone, on the live release prompt 7 and on the live
  refund prompt 8, gets "approval recorded" and no transfer is called, nor in the admin
  branch; the buyer after the seller's approval releases; an admin on the refund prompt
  refunds.\<close>

theorem transfer_needs_quorum_witness:
  "snd (snd (release_confirm_yes chain_ok 18 (buyer_click 7) scenario)) = []
   \<and> fst (release_confirm_yes chain_ok 18 (buyer_click 7) scenario) = ApprovalRecorded
   \<and> snd (snd (admin_release_confirm_yes chain_ok 18 (buyer_click 7) scenario)) = []
   \<and> \<not> stale_prompt (refundConfirmationMessageId scenario) (callbackMessageId (buyer_click 8))
   \<and> fst (refund_confirm_yes chain_ok True 18 (buyer_click 8) scenario) = ApprovalRecorded
   \<and> snd (snd (refund_confirm_yes chain_ok True 18 (buyer_click 8) scenario)) = []
   \<and> snd (snd (release_confirm_yes chain_ok 18 (buyer_click 7) seller_approved)) \<noteq> []
   \<and> snd (snd (refund_confirm_yes chain_ok True 18 (admin_click 8) scenario)) \<noteq> []"
proof -
  have ans: "fst (refund_confirm_yes chain_ok True 18 (buyer_click 8) scenario) = ApprovalRecorded"
    by (simp add: eval_defs refund_defs)
  show ?thesis
    using transfer_needs_quorum [of chain_ok 18 "buyer_click 7" scenario True]
      transfer_needs_quorum [of chain_ok 18 "buyer_click 8" scenario True]
      transfer_needs_quorum [of chain_ok 18 "buyer_click 7" seller_approved True]
      transfer_needs_quorum [of chain_ok 18 "admin_click 8" scenario True]
      ans
    by (simp add: eval_defs canExecute_def recordReleaseApproval_def recordRefundApproval_def
        requestedRelease_def actualAmountToUser_def refundAmount_def refundTotalDeposited_def)
qed

end
